theory Spec2Isabelle
  imports Main
begin

section \<open>Strings and the two string escapers\<close>

text \<open>
  A JavaScript string is modelled as a \<^typ>\<open>string\<close>, one \<^typ>\<open>char\<close> per code unit. Every
  pattern of the escapers is a single ASCII character, so code units above the ASCII range
  are copied through unchanged in the source and in the model alike.
\<close>

abbreviation bslash :: char where "bslash \<equiv> CHR 0x5C"
abbreviation squote :: char where "squote \<equiv> CHR 0x27"
abbreviation newline :: char where "newline \<equiv> CHR 0x0A"
abbreviation creturn :: char where "creturn \<equiv> CHR 0x0D"
abbreviation htab :: char where "htab \<equiv> CHR 0x09"
abbreviation nul :: char where "nul \<equiv> CHR 0x00"
abbreviation percent :: char where "percent \<equiv> CHR 0x25"
abbreviation underscore :: char where "underscore \<equiv> CHR 0x5F"

text \<open>
  \<^verbatim>\<open>s.replace(/c/g, rep)\<close> for a pattern that is one literal character: every occurrence of
  \<open>c\<close>, left to right, is replaced by \<open>rep\<close>; the replacement text is not scanned again.
\<close>

fun replaceAll :: "char \<Rightarrow> string \<Rightarrow> string \<Rightarrow> string" where
  "replaceAll c rep [] = []"
| "replaceAll c rep (x # xs) =
     (if x = c then rep @ replaceAll c rep xs else x # replaceAll c rep xs)"

text \<open>\<^verbatim>\<open>escapeString\<close> (escape.ts): six passes over the whole string, in the order of the call chain.\<close>

definition escapeString :: "string \<Rightarrow> string" where
  "escapeString val =
     (let s1 = replaceAll bslash [bslash, bslash] val;
          s2 = replaceAll squote [bslash, squote] s1;
          s3 = replaceAll newline [bslash, CHR ''n''] s2;
          s4 = replaceAll creturn [bslash, CHR ''r''] s3;
          s5 = replaceAll htab [bslash, CHR ''t''] s4
      in replaceAll nul [bslash, CHR ''0''] s5)"

text \<open>\<^verbatim>\<open>escapeLike\<close> (escape.ts): the same chain with the two wildcard passes after the quote pass.\<close>

definition escapeLike :: "string \<Rightarrow> string" where
  "escapeLike val =
     (let s1 = replaceAll bslash [bslash, bslash] val;
          s2 = replaceAll squote [bslash, squote] s1;
          s3 = replaceAll percent [bslash, percent] s2;
          s4 = replaceAll underscore [bslash, underscore] s3;
          s5 = replaceAll newline [bslash, CHR ''n''] s4;
          s6 = replaceAll creturn [bslash, CHR ''r''] s5;
          s7 = replaceAll htab [bslash, CHR ''t''] s6
      in replaceAll nul [bslash, CHR ''0''] s7)"

section \<open>Numbers and dates of the runtime\<close>

text \<open>
  A JavaScript number is not-a-number, an infinity, or a finite double. A finite double is
  identified by the shortest decimal that reads back as it, which is the decimal that
  \<^verbatim>\<open>String(x)\<close> prints from: \<open>Finite neg m e\<close> stands for the double whose shortest decimal
  is \<open>m \<times> 10^e\<close>, negated when \<open>neg\<close> holds. Binary arithmetic on doubles is not modelled
  (the escaper performs none).
\<close>

datatype jsnum = NaN | PosInfinity | NegInfinity | Finite bool nat int

text \<open>\<^verbatim>\<open>Number.isFinite\<close>.\<close>

fun isFinite :: "jsnum \<Rightarrow> bool" where
  "isFinite (Finite neg m e) = True"
| "isFinite x = False"

fun digitsOf :: "nat \<Rightarrow> string" where
  "digitsOf n =
     (if n < 10 then [''0123456789'' ! n]
      else digitsOf (n div 10) @ [''0123456789'' ! (n mod 10)])"

fun trailingZeros :: "nat \<Rightarrow> nat" where
  "trailingZeros m =
     (if m = 0 \<or> m mod 10 \<noteq> 0 then 0 else Suc (trailingZeros (m div 10)))"

declare digitsOf.simps [simp del] trailingZeros.simps [simp del]

text \<open>
  \<^verbatim>\<open>Number::toString\<close> of ECMAScript for a positive finite number (radix 10): with \<open>s\<close> the
  \<open>k\<close> significant digits and \<open>n\<close> the position of the decimal point, the four layouts of
  the standard in its order.
\<close>

definition positiveToString :: "nat \<Rightarrow> int \<Rightarrow> string" where
  "positiveToString m e =
     (let z = trailingZeros m;
          s = digitsOf (m div 10 ^ z);
          k = int (length s);
          n = k + e + int z
      in if k \<le> n \<and> n \<le> 21 then s @ replicate (nat (n - k)) CHR ''0''
         else if 0 < n \<and> n \<le> 21 then take (nat n) s @ ''.'' @ drop (nat n) s
         else if - 6 < n \<and> n \<le> 0 then ''0.'' @ replicate (nat (- n)) CHR ''0'' @ s
         else
           (let ex = n - 1;
                sgn = (if ex < 0 then ''-'' else ''+'');
                exs = digitsOf (nat \<bar>ex\<bar>)
            in if k = 1 then s @ ''e'' @ sgn @ exs
               else take 1 s @ ''.'' @ drop 1 s @ ''e'' @ sgn @ exs))"

text \<open>\<^verbatim>\<open>String(x)\<close> and \<^verbatim>\<open>`${x}`\<close> for a number \<open>x\<close>.\<close>

fun numberToString :: "jsnum \<Rightarrow> string" where
  "numberToString NaN = ''NaN''"
| "numberToString PosInfinity = ''Infinity''"
| "numberToString NegInfinity = ''-Infinity''"
| "numberToString (Finite neg m e) =
     (if m = 0 then ''0''
      else (if neg then ''-'' else []) @ positiveToString m e)"

text \<open>\<^verbatim>\<open>String(i)\<close> for a number that holds the integer \<open>i\<close>.\<close>

definition intToString :: "int \<Rightarrow> string" where
  "intToString i = numberToString (Finite (i < 0) (nat \<bar>i\<bar>) 0)"

text \<open>\<^verbatim>\<open>s.padStart(n, c)\<close> for a one-character filler.\<close>

definition padStart :: "nat \<Rightarrow> char \<Rightarrow> string \<Rightarrow> string" where
  "padStart n c s = replicate (n - length s) c @ s"

text \<open>
  A \<^verbatim>\<open>Date\<close> holds a time value: not-a-number (an invalid date) or an integral number of
  milliseconds since 1970-01-01T00:00:00Z, of magnitude at most \<open>8.64 \<times> 10^15\<close>.
\<close>

datatype jsdate = InvalidDate | Instant int

fun isValidDate :: "jsdate \<Rightarrow> bool" where
  "isValidDate InvalidDate = False"
| "isValidDate (Instant t) = True"

section \<open>Values at the loosely-typed boundary\<close>

text \<open>
  A property key is a string or a symbol of the global registry (\<^verbatim>\<open>Symbol.for(name)\<close>, so
  two symbols are the same key exactly when their names are equal). A value is a
  primitive, a \<^verbatim>\<open>Date\<close>, an array, or a plain object given by its own properties; where a
  key occurs twice in the list the first binding is the property. Arrays and dates carry
  no extra properties, and inherited properties are not modelled: no built-in prototype has
  a property named by a marker or named \<open>value\<close>. Functions, symbols and big integers as
  values are outside the model.
\<close>

datatype key = StrKey string | SymKey string

datatype jsval =
    JUndefined
  | JNull
  | JBool bool
  | JNum jsnum
  | JStr string
  | JDate jsdate
  | JArr "jsval list"
  | JObj "(key \<times> jsval) list"

text \<open>
  What ends a call without a string. \<open>Error\<close> is the \<^verbatim>\<open>Error\<close> thrown by the library, with
  its message; \<open>TypeError\<close> and \<open>RangeError\<close> are thrown by the runtime. \<open>NonString v\<close> is
  not an exception: the call returns \<open>v\<close>, which is not a string, against its declared
  result type; the model follows such a value no further.
\<close>

datatype error = Error string | TypeError | RangeError string | NonString jsval

section \<open>Calendar fields and date formats\<close>

text \<open>
  The UTC calendar fields, as ECMAScript defines them (\<open>Day\<close>, \<open>DaysInYear\<close>,
  \<open>DayFromYear\<close>, \<open>YearFromTime\<close>, \<open>InLeapYear\<close>, \<open>DayWithinYear\<close>, \<open>MonthFromTime\<close>,
  \<open>DateFromTime\<close>, \<open>HourFromTime\<close>, \<open>MinFromTime\<close>, \<open>SecFromTime\<close>, \<open>msFromTime\<close>).
  Division and remainder on \<^typ>\<open>int\<close> round towards minus infinity, as \<open>floor\<close> and
  \<open>modulo\<close> of the standard do.
\<close>

definition Day :: "int \<Rightarrow> int" where
  "Day t = t div 86400000"

definition DaysInYear :: "int \<Rightarrow> int" where
  "DaysInYear y =
     (if y mod 4 \<noteq> 0 then 365
      else if y mod 100 \<noteq> 0 then 366
      else if y mod 400 \<noteq> 0 then 365
      else 366)"

definition DayFromYear :: "int \<Rightarrow> int" where
  "DayFromYear y =
     365 * (y - 1970) + (y - 1969) div 4 - (y - 1901) div 100 + (y - 1601) div 400"

text \<open>
  \<open>YearFromTime\<close> is the largest year that starts at or before the instant. It is found
  by counting up from a year that starts no later: as no year has more than 366 days and
  none fewer than 365, \<open>1970 + d div 366\<close> is such a year for a day \<open>d\<close> from 1970 on, and
  \<open>1970 + d div 365\<close> for an earlier day. The search ends because every year has at least
  365 days.
\<close>

lemma div_succ:
  fixes x c :: int
  assumes "0 < c"
  shows "(x + 1) div c = x div c + (if (x + 1) mod c = 0 then 1 else 0)"
proof (cases "(x + 1) mod c = 0")
  case True
  then obtain k where k: "x + 1 = c * k"
    by (auto simp: mod_eq_0_iff_dvd dvd_def)
  have "x = c * (k - 1) + (c - 1)"
    using k by (simp add: algebra_simps)
  then have "x div c = k - 1"
    using assms by (intro int_div_pos_eq [of x c "k - 1" "c - 1"]) simp_all
  then show ?thesis
    using True k assms by simp
next
  case False
  define r where "r = (x + 1) mod c"
  have "0 \<le> r" "r < c" "r \<noteq> 0"
    using False assms by (simp_all add: r_def)
  then have r: "0 \<le> r - 1" "r - 1 < c"
    by simp_all
  have "x = c * ((x + 1) div c) + (r - 1)"
    unfolding r_def by (simp add: algebra_simps)
  then have "x div c = (x + 1) div c"
    using r by (rule int_div_pos_eq)
  then show ?thesis
    using False by simp
qed

lemma DayFromYear_succ: "DayFromYear (y + 1) = DayFromYear y + DaysInYear y"
proof -
  have m4: "(y - 1969 + 1) mod 4 = y mod 4"
    using mod_diff_eq [of y 4 1968] by simp
  have m100: "(y - 1901 + 1) mod 100 = y mod 100"
    using mod_diff_eq [of y 100 1900] by simp
  have m400: "(y - 1601 + 1) mod 400 = y mod 400"
    using mod_diff_eq [of y 400 1600] by simp
  have a: "(y + 1 - 1969) div 4 = (y - 1969) div 4 + (if y mod 4 = 0 then 1 else 0)"
    using div_succ [of 4 "y - 1969"] by (simp only: m4) (simp add: algebra_simps)
  have b: "(y + 1 - 1901) div 100 = (y - 1901) div 100 + (if y mod 100 = 0 then 1 else 0)"
    using div_succ [of 100 "y - 1901"] by (simp only: m100) (simp add: algebra_simps)
  have c: "(y + 1 - 1601) div 400 = (y - 1601) div 400 + (if y mod 400 = 0 then 1 else 0)"
    using div_succ [of 400 "y - 1601"] by (simp only: m400) (simp add: algebra_simps)
  have h1: "y mod 100 = 0 \<Longrightarrow> y mod 4 = 0"
    using mod_mod_cancel [of 4 100 y] by simp
  have h2: "y mod 400 = 0 \<Longrightarrow> y mod 100 = 0"
    using mod_mod_cancel [of 100 400 y] by simp
  have "DayFromYear (y + 1) =
      365 * (y + 1 - 1970) + (y + 1 - 1969) div 4 - (y + 1 - 1901) div 100 + (y + 1 - 1601) div 400"
    by (simp only: DayFromYear_def)
  also have "\<dots> = DayFromYear y + 365 + (if y mod 4 = 0 then 1 else 0)
      - (if y mod 100 = 0 then 1 else 0) + (if y mod 400 = 0 then 1 else 0)"
    by (simp only: a b c DayFromYear_def) (simp add: algebra_simps)
  also have "\<dots> = DayFromYear y + DaysInYear y"
    using h1 h2 by (cases "y mod 4 = 0"; cases "y mod 100 = 0"; cases "y mod 400 = 0")
      (simp_all add: DaysInYear_def)
  finally show ?thesis .
qed

lemma DaysInYear_cases: "DaysInYear y = 365 \<or> DaysInYear y = 366"
  by (simp add: DaysInYear_def)

lemma DayFromYear_step:
  "DayFromYear y + 365 \<le> DayFromYear (y + 1)" "DayFromYear (y + 1) \<le> DayFromYear y + 366"
  using DaysInYear_cases [of y] by (auto simp: DayFromYear_succ)

function yearSearch :: "int \<Rightarrow> int \<Rightarrow> int" where
  "yearSearch y d = (if DayFromYear (y + 1) \<le> d then yearSearch (y + 1) d else y)"
  by pat_completeness auto
termination
proof (relation "measure (\<lambda>(y, d). nat (d - DayFromYear (y + 1) + 1))")
  show "wf (measure (\<lambda>(y, d). nat (d - DayFromYear (y + 1) + 1)))" by simp
next
  fix y d :: int
  assume "DayFromYear (y + 1) \<le> d"
  moreover have "DayFromYear (y + 1) < DayFromYear (y + 1 + 1)"
    using DayFromYear_step(1) [of "y + 1"] by linarith
  ultimately show "((y + 1, d), (y, d)) \<in> measure (\<lambda>(y, d). nat (d - DayFromYear (y + 1) + 1))"
    by simp
qed

declare yearSearch.simps [simp del]

definition YearFromDay :: "int \<Rightarrow> int" where
  "YearFromDay d = yearSearch (1970 + (if 0 \<le> d then d div 366 else d div 365)) d"

definition YearFromTime :: "int \<Rightarrow> int" where
  "YearFromTime t = YearFromDay (Day t)"

definition InLeapYear :: "int \<Rightarrow> bool" where
  "InLeapYear t = (DaysInYear (YearFromTime t) = 366)"

definition DayWithinYear :: "int \<Rightarrow> int" where
  "DayWithinYear t = Day t - DayFromYear (YearFromTime t)"

definition MonthFromTime :: "int \<Rightarrow> int" where
  "MonthFromTime t =
     (let d = DayWithinYear t; l = (if InLeapYear t then 1 else 0)
      in if d < 31 then 0
         else if d < 59 + l then 1
         else if d < 90 + l then 2
         else if d < 120 + l then 3
         else if d < 151 + l then 4
         else if d < 181 + l then 5
         else if d < 212 + l then 6
         else if d < 243 + l then 7
         else if d < 273 + l then 8
         else if d < 304 + l then 9
         else if d < 334 + l then 10
         else 11)"

definition DateFromTime :: "int \<Rightarrow> int" where
  "DateFromTime t =
     (let d = DayWithinYear t; l = (if InLeapYear t then 1 else 0); m = MonthFromTime t
      in if m = 0 then d + 1
         else if m = 1 then d - 30
         else if m = 2 then d - 58 - l
         else if m = 3 then d - 89 - l
         else if m = 4 then d - 119 - l
         else if m = 5 then d - 150 - l
         else if m = 6 then d - 180 - l
         else if m = 7 then d - 211 - l
         else if m = 8 then d - 242 - l
         else if m = 9 then d - 272 - l
         else if m = 10 then d - 303 - l
         else d - 333 - l)"

definition HourFromTime :: "int \<Rightarrow> int" where
  "HourFromTime t = (t div 3600000) mod 24"

definition MinFromTime :: "int \<Rightarrow> int" where
  "MinFromTime t = (t div 60000) mod 60"

definition SecFromTime :: "int \<Rightarrow> int" where
  "SecFromTime t = (t div 1000) mod 60"

definition msFromTime :: "int \<Rightarrow> int" where
  "msFromTime t = t mod 1000"

text \<open>A non-negative calendar field, zero-padded to \<open>n\<close> digits.\<close>

definition padField :: "nat \<Rightarrow> int \<Rightarrow> string" where
  "padField n i = padStart n CHR ''0'' (digitsOf (nat i))"

text \<open>
  \<^verbatim>\<open>Date.prototype.toISOString\<close>: a \<^verbatim>\<open>RangeError\<close> on an invalid date; otherwise the year
  as four digits when it lies in 0..9999 and as a sign and six digits when it does not,
  then the fields down to the three digits of the milliseconds.
\<close>

definition isoYear :: "int \<Rightarrow> string" where
  "isoYear y =
     (if 0 \<le> y \<and> y \<le> 9999 then padField 4 y
      else (if y < 0 then ''-'' else ''+'') @ padField 6 \<bar>y\<bar>)"

fun toISOString :: "jsdate \<Rightarrow> error + string" where
  "toISOString InvalidDate = Inl (RangeError ''Invalid time value'')"
| "toISOString (Instant t) =
     Inr (isoYear (YearFromTime t) @ ''-'' @ padField 2 (MonthFromTime t + 1) @ ''-''
          @ padField 2 (DateFromTime t) @ ''T'' @ padField 2 (HourFromTime t) @ '':''
          @ padField 2 (MinFromTime t) @ '':'' @ padField 2 (SecFromTime t) @ ''.''
          @ padField 3 (msFromTime t) @ ''Z'')"

definition isDigit :: "char \<Rightarrow> bool" where
  "isDigit c = (c \<in> set ''0123456789'')"

text \<open>
  \<^verbatim>\<open>s.replace(/\.\d{3}Z$/, 'Z')\<close>: the pattern is anchored at the end of the string, so
  its only possible match is the last five characters.
\<close>

definition replaceMillisSuffix :: "string \<Rightarrow> string" where
  "replaceMillisSuffix s =
     (case rev s of
        z # d3 # d2 # d1 # dot # front \<Rightarrow>
          if dot = CHR ''.'' \<and> isDigit d1 \<and> isDigit d2 \<and> isDigit d3 \<and> z = CHR ''Z''
          then rev front @ ''Z'' else s
      | _ \<Rightarrow> s)"

text \<open>\<^verbatim>\<open>formatDateTime\<close> (escape.ts).\<close>

definition formatDateTime :: "jsdate \<Rightarrow> error + string" where
  "formatDateTime date =
     (case toISOString date of
        Inl e \<Rightarrow> Inl e
      | Inr isoText \<Rightarrow> Inr (replaceMillisSuffix isoText))"

text \<open>
  \<^verbatim>\<open>formatDate\<close> (escape.ts). On an invalid date every getter returns not-a-number, which
  prints as \<open>NaN\<close> and is not padded, being three characters long.
\<close>

fun formatDate :: "jsdate \<Rightarrow> string" where
  "formatDate InvalidDate = ''NaN-NaN-NaN''"
| "formatDate (Instant t) =
     (let year = YearFromTime t;
          month = padStart 2 CHR ''0'' (intToString (MonthFromTime t + 1));
          day = padStart 2 CHR ''0'' (intToString (DateFromTime t))
      in intToString year @ ''-'' @ month @ ''-'' @ day)"

section \<open>Operators and wrappers\<close>

text \<open>\<^verbatim>\<open>typeof val\<close>.\<close>

fun typeof :: "jsval \<Rightarrow> string" where
  "typeof JUndefined = ''undefined''"
| "typeof JNull = ''object''"
| "typeof (JBool b) = ''boolean''"
| "typeof (JNum n) = ''number''"
| "typeof (JStr s) = ''string''"
| "typeof (JDate d) = ''object''"
| "typeof (JArr xs) = ''object''"
| "typeof (JObj props) = ''object''"

text \<open>\<^verbatim>\<open>k in val\<close> and \<^verbatim>\<open>val[k]\<close> for a marker key or the key \<open>value\<close>.\<close>

fun hasProperty :: "key \<Rightarrow> jsval \<Rightarrow> bool" where
  "hasProperty k (JObj props) = (map_of props k \<noteq> None)"
| "hasProperty k v = False"

fun getProperty :: "jsval \<Rightarrow> key \<Rightarrow> jsval" where
  "getProperty (JObj props) k = (case map_of props k of Some v \<Rightarrow> v | None \<Rightarrow> JUndefined)"
| "getProperty v k = JUndefined"

subsection \<open>The symbol-marker variant: types.ts and helpers.ts\<close>

definition RAW_SYMBOL :: key where
  "RAW_SYMBOL = SymKey ''@niicojs/soql:raw''"

definition LIKE_SYMBOL :: key where
  "LIKE_SYMBOL = SymKey ''@niicojs/soql:like''"

definition DATE_SYMBOL :: key where
  "DATE_SYMBOL = SymKey ''@niicojs/soql:date''"

definition raw :: "string \<Rightarrow> jsval" where
  "raw v = JObj [(RAW_SYMBOL, JBool True), (StrKey ''value'', JStr v)]"

definition like :: "string \<Rightarrow> jsval" where
  "like v = JObj [(LIKE_SYMBOL, JBool True), (StrKey ''value'', JStr v)]"

definition date :: "jsdate \<Rightarrow> error + jsval" where
  "date v =
     (if \<not> isValidDate v then Inl (Error ''Invalid Date object'')
      else Inr (JObj [(DATE_SYMBOL, JBool True), (StrKey ''value'', JDate v)]))"

text \<open>
  \<^verbatim>\<open>literal\<close>: the parameter type \<^verbatim>\<open>DateLiteral\<close> is erased at run time, so the function
  receives any string.
\<close>

definition literal :: "string \<Rightarrow> jsval" where
  "literal v = raw v"

definition isRawValue :: "jsval \<Rightarrow> bool" where
  "isRawValue val \<longleftrightarrow>
     typeof val = ''object'' \<and> val \<noteq> JNull \<and> hasProperty RAW_SYMBOL val
     \<and> getProperty val RAW_SYMBOL = JBool True"

definition isLikeValue :: "jsval \<Rightarrow> bool" where
  "isLikeValue val \<longleftrightarrow>
     typeof val = ''object'' \<and> val \<noteq> JNull \<and> hasProperty LIKE_SYMBOL val
     \<and> getProperty val LIKE_SYMBOL = JBool True"

definition isDateValue :: "jsval \<Rightarrow> bool" where
  "isDateValue val \<longleftrightarrow>
     typeof val = ''object'' \<and> val \<noteq> JNull \<and> hasProperty DATE_SYMBOL val
     \<and> getProperty val DATE_SYMBOL = JBool True"

subsection \<open>The field-marker variant of helpers.ts\<close>

definition raw_v2 :: "string \<Rightarrow> jsval" where
  "raw_v2 v = JObj [(StrKey ''__raw'', JBool True), (StrKey ''value'', JStr v)]"

definition like_v2 :: "string \<Rightarrow> jsval" where
  "like_v2 v = JObj [(StrKey ''__like'', JBool True), (StrKey ''value'', JStr v)]"

definition isRawValue_v2 :: "jsval \<Rightarrow> bool" where
  "isRawValue_v2 val \<longleftrightarrow>
     typeof val = ''object'' \<and> val \<noteq> JNull \<and> hasProperty (StrKey ''__raw'') val
     \<and> getProperty val (StrKey ''__raw'') = JBool True"

definition isLikeValue_v2 :: "jsval \<Rightarrow> bool" where
  "isLikeValue_v2 val \<longleftrightarrow>
     typeof val = ''object'' \<and> val \<noteq> JNull \<and> hasProperty (StrKey ''__like'') val
     \<and> getProperty val (StrKey ''__like'') = JBool True"

section \<open>The value escaper: escape.ts\<close>

text \<open>
  A call returns a string (\<open>Inr\<close>) or ends with an \<^typ>\<open>error\<close> (\<open>Inl\<close>). A callback that
  throws inside \<^verbatim>\<open>arr.map\<close> ends the whole call at the first such element.
\<close>

fun collectResults :: "(error + 'b) list \<Rightarrow> error + 'b list" where
  "collectResults [] = Inr []"
| "collectResults (r # rs) =
     (case r of
        Inl e \<Rightarrow> Inl e
      | Inr y \<Rightarrow> (case collectResults rs of Inl e \<Rightarrow> Inl e | Inr ys \<Rightarrow> Inr (y # ys)))"

definition mapResults :: "('a \<Rightarrow> error + 'b) \<Rightarrow> 'a list \<Rightarrow> error + 'b list" where
  "mapResults f xs = collectResults (map f xs)"

text \<open>\<^verbatim>\<open>strs.join(sep)\<close> on an array of strings.\<close>

fun joinStrings :: "string \<Rightarrow> string list \<Rightarrow> string" where
  "joinStrings sep [] = []"
| "joinStrings sep [x] = x"
| "joinStrings sep (x # y # ys) = x @ sep @ joinStrings sep (y # ys)"

text \<open>
  The payload \<^verbatim>\<open>val.value\<close> of a marked object. The interfaces \<^verbatim>\<open>RawValue\<close> and
  \<^verbatim>\<open>LikeValue\<close> declare it a string and \<^verbatim>\<open>DateValue\<close> a \<^verbatim>\<open>Date\<close>; the guards test the marker
  only. The raw branch returns the payload as it is. With a payload of another type
  \<^verbatim>\<open>escapeLike\<close> and \<^verbatim>\<open>formatDate\<close> call a method the payload does not have, which is a
  \<^verbatim>\<open>TypeError\<close>.
\<close>

fun returnPayload :: "jsval \<Rightarrow> error + string" where
  "returnPayload (JStr s) = Inr s"
| "returnPayload v = Inl (NonString v)"

fun stringPayload :: "jsval \<Rightarrow> error + string" where
  "stringPayload (JStr s) = Inr s"
| "stringPayload v = Inl TypeError"

fun datePayload :: "jsval \<Rightarrow> error + jsdate" where
  "datePayload (JDate d) = Inr d"
| "datePayload v = Inl TypeError"

definition quoteIf :: "bool \<Rightarrow> string \<Rightarrow> string" where
  "quoteIf wrapStrings escaped = (if wrapStrings then [squote] @ escaped @ [squote] else escaped)"

definition emptyArrayMessage :: string where
  "emptyArrayMessage =
     ''Empty arrays are not allowed in SOQL IN clauses. '' @
     ''Use a conditional to skip the query or provide at least one value.''"

text \<open>
  \<^verbatim>\<open>escapeValue\<close> and \<^verbatim>\<open>escapeArray\<close> of the symbol-marker variant. The tests of
  \<^verbatim>\<open>escapeValue\<close> are taken in the order of the source; after the three guards the
  remaining tests (\<^verbatim>\<open>Array.isArray\<close>, the three \<^verbatim>\<open>typeof\<close> tests and \<^verbatim>\<open>instanceof Date\<close>) are
  mutually exclusive and read off the constructor of the value.
\<close>

fun escapeValue :: "jsval \<Rightarrow> bool \<Rightarrow> error + string"
  and escapeArray :: "jsval list \<Rightarrow> error + string" where
  "escapeValue val wrapStrings =
     (if val = JNull \<or> val = JUndefined then Inr ''null''
      else if isRawValue val then returnPayload (getProperty val (StrKey ''value''))
      else if isLikeValue val then
        (case stringPayload (getProperty val (StrKey ''value'')) of
           Inl e \<Rightarrow> Inl e
         | Inr s \<Rightarrow> Inr (quoteIf wrapStrings (escapeLike s)))
      else if isDateValue val then
        (case datePayload (getProperty val (StrKey ''value'')) of
           Inl e \<Rightarrow> Inl e
         | Inr d \<Rightarrow> Inr (formatDate d))
      else
        (case val of
           JArr arr \<Rightarrow> escapeArray arr
         | JBool b \<Rightarrow> Inr (if b then ''true'' else ''false'')
         | JNum n \<Rightarrow>
             if \<not> isFinite n then Inl (Error (''Invalid SOQL number value: '' @ numberToString n))
             else Inr (numberToString n)
         | JDate d \<Rightarrow>
             if \<not> isValidDate d then Inl (Error ''Invalid Date object'')
             else formatDateTime d
         | JStr s \<Rightarrow> Inr (quoteIf wrapStrings (escapeString s))
         | _ \<Rightarrow> Inl (Error (''Unsupported SOQL value type: '' @ typeof val))))"
| "escapeArray arr =
     (if length arr = 0 then Inl (Error emptyArrayMessage)
      else
        (case collectResults (map (\<lambda>item. escapeValue item True) arr) of
           Inl e \<Rightarrow> Inl e
         | Inr escaped \<Rightarrow> Inr (''('' @ joinStrings '', '' escaped @ '')'')))"

text \<open>The same two functions in the field-marker variant, which has no date-only branch.\<close>

fun escapeValue_v2 :: "jsval \<Rightarrow> bool \<Rightarrow> error + string"
  and escapeArray_v2 :: "jsval list \<Rightarrow> error + string" where
  "escapeValue_v2 val wrapStrings =
     (if val = JNull \<or> val = JUndefined then Inr ''null''
      else if isRawValue_v2 val then returnPayload (getProperty val (StrKey ''value''))
      else if isLikeValue_v2 val then
        (case stringPayload (getProperty val (StrKey ''value'')) of
           Inl e \<Rightarrow> Inl e
         | Inr s \<Rightarrow> Inr (quoteIf wrapStrings (escapeLike s)))
      else
        (case val of
           JArr arr \<Rightarrow> escapeArray_v2 arr
         | JBool b \<Rightarrow> Inr (if b then ''true'' else ''false'')
         | JNum n \<Rightarrow>
             if \<not> isFinite n then Inl (Error (''Invalid SOQL number value: '' @ numberToString n))
             else Inr (numberToString n)
         | JDate d \<Rightarrow>
             if \<not> isValidDate d then Inl (Error ''Invalid Date object'')
             else formatDateTime d
         | JStr s \<Rightarrow> Inr (quoteIf wrapStrings (escapeString s))
         | _ \<Rightarrow> Inl (Error (''Unsupported SOQL value type: '' @ typeof val))))"
| "escapeArray_v2 arr =
     (if length arr = 0 then Inr ''(null)''
      else
        (case collectResults (map (\<lambda>item. escapeValue_v2 item True) arr) of
           Inl e \<Rightarrow> Inl e
         | Inr escaped \<Rightarrow> Inr (''('' @ joinStrings '', '' escaped @ '')'')))"

declare escapeValue.simps [simp del] escapeArray.simps [simp del]
declare escapeValue_v2.simps [simp del] escapeArray_v2.simps [simp del]

section \<open>The template tag: soql.ts\<close>

text \<open>
  The loop of \<^verbatim>\<open>soql\<close>, with the index \<open>i\<close> and the accumulated \<open>result\<close> as arguments.
  \<^verbatim>\<open>strings[i]\<close> is read under \<open>i < strings.length\<close> and \<^verbatim>\<open>values[i]\<close> under
  \<open>i < values.length\<close>; a throwing \<^verbatim>\<open>escapeValue\<close> ends the call.
\<close>

function soql_loop :: "string list \<Rightarrow> jsval list \<Rightarrow> nat \<Rightarrow> string \<Rightarrow> error + string" where
  "soql_loop strings vals i result =
     (if i < length strings then
        (let result1 = result @ strings ! i
         in if i < length vals then
              (case escapeValue (vals ! i) True of
                 Inl e \<Rightarrow> Inl e
               | Inr escaped \<Rightarrow> soql_loop strings vals (i + 1) (result1 @ escaped))
            else soql_loop strings vals (i + 1) result1)
      else Inr result)"
  by pat_completeness auto
termination
  by (relation "measure (\<lambda>(strings, vals, i, result). length strings - i)") auto

declare soql_loop.simps [simp del]

definition soql :: "string list \<Rightarrow> jsval list \<Rightarrow> error + string" where
  "soql strings vals = soql_loop strings vals 0 []"

section \<open>Notions used to state the properties\<close>

subsection \<open>Escaped strings\<close>

text \<open>
  The image of one input character under the whole chain of \<^const>\<open>escapeString\<close>, and under
  the chain of \<^const>\<open>escapeLike\<close>: the wildcards are added to the plain table.
\<close>

definition escapedChar :: "char \<Rightarrow> string" where
  "escapedChar c =
     (if c = bslash then [bslash, bslash]
      else if c = squote then [bslash, squote]
      else if c = newline then [bslash, CHR ''n'']
      else if c = creturn then [bslash, CHR ''r'']
      else if c = htab then [bslash, CHR ''t'']
      else if c = nul then [bslash, CHR ''0'']
      else [c])"

definition escapedLikeChar :: "char \<Rightarrow> string" where
  "escapedLikeChar c =
     (if c = percent then [bslash, percent]
      else if c = underscore then [bslash, underscore]
      else escapedChar c)"

text \<open>
  A left-to-right reading of an escaped string: a backslash always opens a two-character
  escape sequence whose second character is taken from \<open>allowed\<close>, and a single quote
  occurs only as the second character of such a sequence.
\<close>

fun wellEscaped :: "char list \<Rightarrow> string \<Rightarrow> bool" where
  "wellEscaped allowed [] = True"
| "wellEscaped allowed [c] = (c \<noteq> bslash \<and> c \<noteq> squote)"
| "wellEscaped allowed (c # d # cs) =
     (if c = bslash then d \<in> set allowed \<and> wellEscaped allowed cs
      else c \<noteq> squote \<and> wellEscaped allowed (d # cs))"

definition stringEscapes :: "char list" where
  "stringEscapes = [bslash, squote, CHR ''n'', CHR ''r'', CHR ''t'', CHR ''0'']"

subsection \<open>Templates\<close>

text \<open>
  The text of a template: the segments in order, with the escaped values between them.
  For \<open>n + 1\<close> segments and \<open>n\<close> escaped values this is
  \<open>segments[0] + escaped[0] + segments[1] + \<dots> + segments[n]\<close>.
\<close>

fun interleave :: "string list \<Rightarrow> string list \<Rightarrow> string" where
  "interleave [] es = []"
| "interleave (s # ss) [] = s @ interleave ss []"
| "interleave (s # ss) (e # es) = s @ e @ interleave ss es"

subsection \<open>The declared type of the interpolated values\<close>





subsection \<open>Objects with string keys only\<close>

text \<open>
  The shape of an object written as a literal with ordinary property names, or read from
  JSON: none of its keys is a symbol.
\<close>

fun isStrKey :: "key \<Rightarrow> bool" where
  "isStrKey (StrKey n) = True"
| "isStrKey (SymKey n) = False"

definition stringKeyed :: "(key \<times> jsval) list \<Rightarrow> bool" where
  "stringKeyed props = list_all (\<lambda>p. isStrKey (fst p)) props"

subsection \<open>Shapes of rendered numbers and instants\<close>

text \<open>The characters of a decimal numeral: digits, sign, point and exponent mark.\<close>

definition numeralChars :: "char list" where
  "numeralChars = ''0123456789-+.e''"

text \<open>The layout \<open>YYYY-MM-DDThh:mm:ssZ\<close>: twenty characters, digits around fixed marks.\<close>

fun dateTimeShape :: "string \<Rightarrow> bool" where
  "dateTimeShape [y1, y2, y3, y4, a, m1, m2, b, d1, d2, t, h1, h2, c, n1, n2, d, s1, s2, z] =
     (list_all isDigit [y1, y2, y3, y4, m1, m2, d1, d2, h1, h2, n1, n2, s1, s2]
      \<and> [a, b, t, c, d, z] = ''--T::Z'')"
| "dateTimeShape s = False"

section \<open>Properties of the string escapers\<close>

lemma replaceAll_append:
  "replaceAll c rep (xs @ ys) = replaceAll c rep xs @ replaceAll c rep ys"
  by (induction xs) simp_all

lemma replaceAll_concat_map:
  "replaceAll c rep (concat (map f xs)) = concat (map (\<lambda>x. replaceAll c rep (f x)) xs)"
  by (induction xs) (simp_all add: replaceAll_append)

lemma replaceAll_as_concat:
  "replaceAll c rep xs = concat (map (\<lambda>x. if x = c then rep else [x]) xs)"
  by (induction xs) simp_all

lemma escapeString_pointwise: "escapeString s = concat (map escapedChar s)"
proof -
  have "escapeString s =
      concat (map (\<lambda>x. replaceAll nul [bslash, CHR ''0'']
        (replaceAll htab [bslash, CHR ''t'']
          (replaceAll creturn [bslash, CHR ''r'']
            (replaceAll newline [bslash, CHR ''n'']
              (replaceAll squote [bslash, squote]
                (if x = bslash then [bslash, bslash] else [x])))))) s)"
    unfolding escapeString_def Let_def
    by (subst replaceAll_as_concat [of bslash]) (simp only: replaceAll_concat_map)
  also have "\<dots> = concat (map escapedChar s)"
    by (rule arg_cong [where f = concat], rule map_cong [OF refl])
       (simp add: escapedChar_def)
  finally show ?thesis .
qed

lemma escapeLike_pointwise: "escapeLike s = concat (map escapedLikeChar s)"
proof -
  have "escapeLike s =
      concat (map (\<lambda>x. replaceAll nul [bslash, CHR ''0'']
        (replaceAll htab [bslash, CHR ''t'']
          (replaceAll creturn [bslash, CHR ''r'']
            (replaceAll newline [bslash, CHR ''n'']
              (replaceAll underscore [bslash, underscore]
                (replaceAll percent [bslash, percent]
                  (replaceAll squote [bslash, squote]
                    (if x = bslash then [bslash, bslash] else [x])))))))) s)"
    unfolding escapeLike_def Let_def
    by (subst replaceAll_as_concat [of bslash]) (simp only: replaceAll_concat_map)
  also have "\<dots> = concat (map escapedLikeChar s)"
    by (rule arg_cong [where f = concat], rule map_cong [OF refl])
       (simp add: escapedLikeChar_def escapedChar_def)
  finally show ?thesis .
qed

lemma wellEscaped_escapedChar:
  "wellEscaped stringEscapes (escapedChar c @ rest) = wellEscaped stringEscapes rest"
  by (cases rest) (simp_all add: escapedChar_def stringEscapes_def)

lemma wellEscaped_escapeString: "wellEscaped stringEscapes (escapeString s)"
  unfolding escapeString_pointwise
  by (induction s) (simp_all add: wellEscaped_escapedChar)

text \<open>
  Claim C1. For every string \<open>s\<close>, \<open>escapeString s\<close> is the result of the six substitutions
  in the order backslash, single quote, newline, carriage return, tab, NUL. Consequently
  each input character is rendered once (a backslash introduced by a later pass is never
  escaped again), every backslash of the output opens an escape sequence whose second
  character is one of \<open>\\ ' n r t 0\<close>, and no single quote stands outside such a sequence.
  The order matters: on backslash-then-quote the output doubles the backslash and then
  escapes the quote. \<open>escapeString "O'Brien"\<close> is \<open>O\\'Brien\<close>.
\<close>

theorem escapeString_order_and_safety:
  "escapeString s =
     replaceAll nul [bslash, CHR ''0'']
       (replaceAll htab [bslash, CHR ''t'']
         (replaceAll creturn [bslash, CHR ''r'']
           (replaceAll newline [bslash, CHR ''n'']
             (replaceAll squote [bslash, squote]
               (replaceAll bslash [bslash, bslash] s)))))
   \<and> escapeString s = concat (map escapedChar s)
   \<and> wellEscaped stringEscapes (escapeString s)
   \<and> escapeString (''a'' @ [bslash, squote] @ ''b'')
       = ''a'' @ [bslash, bslash, bslash, squote] @ ''b''
   \<and> escapeString ''O'Brien'' = ''O'' @ [bslash, squote] @ ''Brien''"
proof -
  have "escapeString s =
     replaceAll nul [bslash, CHR ''0'']
       (replaceAll htab [bslash, CHR ''t'']
         (replaceAll creturn [bslash, CHR ''r'']
           (replaceAll newline [bslash, CHR ''n'']
             (replaceAll squote [bslash, squote]
               (replaceAll bslash [bslash, bslash] s)))))"
    by (simp add: escapeString_def)
  moreover have "escapeString (''a'' @ [bslash, squote] @ ''b'')
       = ''a'' @ [bslash, bslash, bslash, squote] @ ''b''"
    by (simp add: escapeString_def)
  moreover have "escapeString ''O'Brien'' = ''O'' @ [bslash, squote] @ ''Brien''"
    by (simp add: escapeString_def)
  ultimately show ?thesis
    using escapeString_pointwise [of s] wellEscaped_escapeString [of s] by blast
qed

text \<open>
  Claim C3. For every string \<open>s\<close>, \<open>escapeLike s\<close> is the chain of \<open>escapeString\<close> with the
  percent and underscore substitutions inserted after the backslash and quote passes and
  before the newline, carriage-return, tab and NUL passes; each input character is rendered
  as by \<open>escapeString\<close>, except that a percent sign and an underscore get a backslash in
  front. \<open>escapeLike "100%"\<close> is \<open>100\\%\<close>, \<open>escapeLike "test_value"\<close> is \<open>test\\_value\<close> and
  \<open>escapeLike "50%_test's"\<close> is \<open>50\\%\\_test\\'s\<close>.
\<close>

theorem escapeLike_order_and_examples:
  "escapeLike s =
     replaceAll nul [bslash, CHR ''0'']
       (replaceAll htab [bslash, CHR ''t'']
         (replaceAll creturn [bslash, CHR ''r'']
           (replaceAll newline [bslash, CHR ''n'']
             (replaceAll underscore [bslash, underscore]
               (replaceAll percent [bslash, percent]
                 (replaceAll squote [bslash, squote]
                   (replaceAll bslash [bslash, bslash] s)))))))
   \<and> escapeLike s = concat (map escapedLikeChar s)
   \<and> escapeLike ''100%'' = ''100'' @ [bslash] @ ''%''
   \<and> escapeLike ''test_value'' = ''test'' @ [bslash] @ ''_value''
   \<and> escapeLike ''50%_test's''
       = ''50'' @ [bslash] @ ''%'' @ [bslash] @ ''_test'' @ [bslash] @ '''s''"
proof -
  have "escapeLike s =
     replaceAll nul [bslash, CHR ''0'']
       (replaceAll htab [bslash, CHR ''t'']
         (replaceAll creturn [bslash, CHR ''r'']
           (replaceAll newline [bslash, CHR ''n'']
             (replaceAll underscore [bslash, underscore]
               (replaceAll percent [bslash, percent]
                 (replaceAll squote [bslash, squote]
                   (replaceAll bslash [bslash, bslash] s)))))))"
    by (simp add: escapeLike_def)
  moreover have "escapeLike ''100%'' = ''100'' @ [bslash] @ ''%''"
    by (simp add: escapeLike_def)
  moreover have "escapeLike ''test_value'' = ''test'' @ [bslash] @ ''_value''"
    by (simp add: escapeLike_def)
  moreover have "escapeLike ''50%_test's''
       = ''50'' @ [bslash] @ ''%'' @ [bslash] @ ''_test'' @ [bslash] @ '''s''"
    by (simp add: escapeLike_def)
  ultimately show ?thesis
    using escapeLike_pointwise [of s] by blast
qed

section \<open>Calendar fields are within their ranges\<close>

lemma DayFromYear_after: "DayFromYear (1970 + int n) \<le> 366 * int n"
proof (induction n)
  case 0
  show ?case by (simp add: DayFromYear_def)
next
  case (Suc n)
  have "DayFromYear (1970 + int n + 1) \<le> DayFromYear (1970 + int n) + 366"
    by (rule DayFromYear_step)
  then show ?case using Suc by (simp add: algebra_simps)
qed

lemma DayFromYear_before: "DayFromYear (1970 - int n) \<le> - 365 * int n"
proof (induction n)
  case 0
  show ?case by (simp add: DayFromYear_def)
next
  case (Suc n)
  have "DayFromYear (1970 - int (Suc n)) + 365 \<le> DayFromYear (1970 - int (Suc n) + 1)"
    by (rule DayFromYear_step)
  then show ?case using Suc by (simp add: algebra_simps)
qed

lemma start_below: "DayFromYear (1970 + (if 0 \<le> d then d div 366 else d div 365)) \<le> d"
proof (cases "0 \<le> d")
  case True
  then have "0 \<le> d div 366" by simp
  then obtain n where n: "d div 366 = int n" using nonneg_int_cases by blast
  have "366 * (d div 366) \<le> d" by simp
  then show ?thesis using True DayFromYear_after [of n] n by simp
next
  case False
  then have "d div 365 \<le> 0" by simp
  then obtain n where n: "d div 365 = - int n" using nonpos_int_cases by blast
  have "365 * (d div 365) \<le> d" by simp
  then show ?thesis using False DayFromYear_before [of n] n by simp
qed

lemma yearSearch_bounds:
  "DayFromYear y \<le> d \<Longrightarrow>
     DayFromYear (yearSearch y d) \<le> d \<and> d < DayFromYear (yearSearch y d + 1)"
proof (induction y d rule: yearSearch.induct)
  case (1 y d)
  show ?case
  proof (cases "DayFromYear (y + 1) \<le> d")
    case True
    then show ?thesis using "1.IH" "1.prems" DayFromYear_step(1) [of y]
      by (subst (1 2) yearSearch.simps) simp
  next
    case False
    then show ?thesis using "1.prems" by (subst (1 2) yearSearch.simps) simp
  qed
qed

lemma YearFromDay_bounds:
  "DayFromYear (YearFromDay d) \<le> d \<and> d < DayFromYear (YearFromDay d + 1)"
  unfolding YearFromDay_def by (rule yearSearch_bounds [OF start_below])



lemma DayWithinYear_bounds:
  "0 \<le> DayWithinYear t" "DayWithinYear t < DaysInYear (YearFromTime t)"
  using YearFromDay_bounds [of "Day t"] DayFromYear_succ [of "YearFromTime t"]
  by (simp_all add: DayWithinYear_def YearFromTime_def)

lemma MonthFromTime_bounds: "0 \<le> MonthFromTime t" "MonthFromTime t \<le> 11"
  by (simp_all add: MonthFromTime_def Let_def)

lemma DateFromTime_bounds: "1 \<le> DateFromTime t \<and> DateFromTime t \<le> 31"
proof -
  define d where "d = DayWithinYear t"
  define l :: int where "l = (if InLeapYear t then 1 else 0)"
  have l: "l = 0 \<or> l = 1"
    by (simp add: l_def)
  have "DayWithinYear t < 365 + l"
    using DayWithinYear_bounds(2) [of t] DaysInYear_cases [of "YearFromTime t"]
    by (auto simp: l_def InLeapYear_def)
  then have d: "0 \<le> d" "d < 365 + l"
    using DayWithinYear_bounds(1) [of t] by (simp_all add: d_def)
  have m: "MonthFromTime t =
     (if d < 31 then 0 else if d < 59 + l then 1 else if d < 90 + l then 2
      else if d < 120 + l then 3 else if d < 151 + l then 4 else if d < 181 + l then 5
      else if d < 212 + l then 6 else if d < 243 + l then 7 else if d < 273 + l then 8
      else if d < 304 + l then 9 else if d < 334 + l then 10 else 11)"
    by (simp only: MonthFromTime_def Let_def d_def l_def)
  have dt: "DateFromTime t =
     (if MonthFromTime t = 0 then d + 1 else if MonthFromTime t = 1 then d - 30
      else if MonthFromTime t = 2 then d - 58 - l else if MonthFromTime t = 3 then d - 89 - l
      else if MonthFromTime t = 4 then d - 119 - l else if MonthFromTime t = 5 then d - 150 - l
      else if MonthFromTime t = 6 then d - 180 - l else if MonthFromTime t = 7 then d - 211 - l
      else if MonthFromTime t = 8 then d - 242 - l else if MonthFromTime t = 9 then d - 272 - l
      else if MonthFromTime t = 10 then d - 303 - l else d - 333 - l)"
    by (simp only: DateFromTime_def Let_def d_def l_def)
  consider "d < 31" | "31 \<le> d" "d < 59 + l" | "59 + l \<le> d" "d < 90 + l"
    | "90 + l \<le> d" "d < 120 + l" | "120 + l \<le> d" "d < 151 + l" | "151 + l \<le> d" "d < 181 + l"
    | "181 + l \<le> d" "d < 212 + l" | "212 + l \<le> d" "d < 243 + l" | "243 + l \<le> d" "d < 273 + l"
    | "273 + l \<le> d" "d < 304 + l" | "304 + l \<le> d" "d < 334 + l" | "334 + l \<le> d"
    by linarith
  then show ?thesis
    using d l by cases (simp_all add: dt m, linarith+)
qed

section \<open>Digits and zero-padded fields\<close>

lemma time_field_bounds:
  "0 \<le> HourFromTime t" "HourFromTime t < 24"
  "0 \<le> MinFromTime t" "MinFromTime t < 60"
  "0 \<le> SecFromTime t" "SecFromTime t < 60"
  "0 \<le> msFromTime t" "msFromTime t < 1000"
  by (simp_all add: HourFromTime_def MinFromTime_def SecFromTime_def msFromTime_def)

lemma digitsOf_digits: "list_all isDigit (digitsOf n)"
proof (induction n rule: digitsOf.induct)
  case (1 n)
  have nth: "isDigit (''0123456789'' ! k)" if "k < 10" for k
    unfolding isDigit_def using that by (intro nth_mem) simp
  show ?case
  proof (cases "n < 10")
    case True
    then show ?thesis using nth [of n] by (subst digitsOf.simps) simp
  next
    case False
    then show ?thesis using "1.IH" nth [of "n mod 10"] by (subst digitsOf.simps) simp
  qed
qed

lemma digitsOf_length: "0 < k \<Longrightarrow> n < 10 ^ k \<Longrightarrow> length (digitsOf n) \<le> k"
proof (induction n arbitrary: k rule: digitsOf.induct)
  case (1 n)
  show ?case
  proof (cases "n < 10")
    case True
    then show ?thesis using "1.prems" by (subst digitsOf.simps) simp
  next
    case False
    then obtain j where j: "k = Suc j" "0 < j"
      using "1.prems" by (cases k; cases "k - 1") auto
    have "n div 10 < 10 ^ j"
      using "1.prems"(2) j by (simp add: less_mult_imp_div_less)
    then have "length (digitsOf (n div 10)) \<le> j"
      using "1.IH" [OF False j(2)] by simp
    then show ?thesis using False j by (subst digitsOf.simps) simp
  qed
qed


lemma padField_digits:
  assumes "0 < k" "0 \<le> i" "i < 10 ^ k"
  shows "length (padField k i) = k" "list_all isDigit (padField k i)"
proof -
  have "nat i < 10 ^ k"
    using assms by (simp add: nat_less_iff)
  then have "length (digitsOf (nat i)) \<le> k"
    using assms(1) by (rule digitsOf_length [rotated])
  then show "length (padField k i) = k"
    by (simp add: padField_def padStart_def)
  have "isDigit CHR ''0''" by (simp add: isDigit_def)
  then show "list_all isDigit (padField k i)"
    using digitsOf_digits [of "nat i"] by (auto simp add: padField_def padStart_def list_all_iff)
qed

lemma two_digits:
  assumes "0 \<le> i" "i < 100"
  obtains a b where "padField 2 i = [a, b]" "isDigit a" "isDigit b"
proof -
  have "length (padField 2 i) = 2" "list_all isDigit (padField 2 i)"
    using padField_digits [of 2 i] assms by simp_all
  moreover obtain a b where "padField 2 i = [a, b]"
    using calculation(1) by (auto simp: numeral_2_eq_2 length_Suc_conv)
  ultimately show ?thesis
    using that by simp
qed

lemma three_digits:
  assumes "0 \<le> i" "i < 1000"
  obtains a b c where "padField 3 i = [a, b, c]" "isDigit a" "isDigit b" "isDigit c"
proof -
  have "length (padField 3 i) = 3" "list_all isDigit (padField 3 i)"
    using padField_digits [of 3 i] assms by simp_all
  moreover obtain a b c where "padField 3 i = [a, b, c]"
    using calculation(1) by (auto simp: numeral_3_eq_3 length_Suc_conv)
  ultimately show ?thesis
    using that by simp
qed

lemma four_digits:
  assumes "0 \<le> i" "i \<le> 9999"
  obtains a b c d where "padField 4 i = [a, b, c, d]" "isDigit a" "isDigit b" "isDigit c" "isDigit d"
proof -
  have "length (padField 4 i) = 4" "list_all isDigit (padField 4 i)"
    using padField_digits [of 4 i] assms by simp_all
  moreover obtain a b c d where "padField 4 i = [a, b, c, d]"
    using calculation(1) by (auto simp: eval_nat_numeral length_Suc_conv)
  ultimately show ?thesis
    using that by simp
qed

lemma replaceMillisSuffix_millis:
  assumes "0 \<le> ms" "ms < 1000"
  shows "replaceMillisSuffix (front @ ''.'' @ padField 3 ms @ ''Z'') = front @ ''Z''"
proof -
  obtain a b c where "padField 3 ms = [a, b, c]" "isDigit a" "isDigit b" "isDigit c"
    using assms by (rule three_digits)
  then show ?thesis
    by (simp add: replaceMillisSuffix_def)
qed

section \<open>The value escaper, case by case\<close>

lemma guards_primitive [simp]:
  "\<not> isRawValue JUndefined" "\<not> isRawValue JNull" "\<not> isRawValue (JBool b)" "\<not> isRawValue (JNum n)"
  "\<not> isRawValue (JStr s)" "\<not> isRawValue (JDate d)" "\<not> isRawValue (JArr xs)"
  "\<not> isLikeValue JUndefined" "\<not> isLikeValue JNull" "\<not> isLikeValue (JBool b)" "\<not> isLikeValue (JNum n)"
  "\<not> isLikeValue (JStr s)" "\<not> isLikeValue (JDate d)" "\<not> isLikeValue (JArr xs)"
  "\<not> isDateValue JUndefined" "\<not> isDateValue JNull" "\<not> isDateValue (JBool b)" "\<not> isDateValue (JNum n)"
  "\<not> isDateValue (JStr s)" "\<not> isDateValue (JDate d)" "\<not> isDateValue (JArr xs)"
  by (simp_all add: isRawValue_def isLikeValue_def isDateValue_def)

lemma guards_v2_primitive [simp]:
  "\<not> isRawValue_v2 JUndefined" "\<not> isRawValue_v2 JNull" "\<not> isRawValue_v2 (JBool b)" "\<not> isRawValue_v2 (JNum n)"
  "\<not> isRawValue_v2 (JStr s)" "\<not> isRawValue_v2 (JDate d)" "\<not> isRawValue_v2 (JArr xs)"
  "\<not> isLikeValue_v2 JUndefined" "\<not> isLikeValue_v2 JNull" "\<not> isLikeValue_v2 (JBool b)" "\<not> isLikeValue_v2 (JNum n)"
  "\<not> isLikeValue_v2 (JStr s)" "\<not> isLikeValue_v2 (JDate d)" "\<not> isLikeValue_v2 (JArr xs)"
  by (simp_all add: isRawValue_v2_def isLikeValue_v2_def)

lemma guards_object:
  "isRawValue (JObj props) \<longleftrightarrow> map_of props RAW_SYMBOL = Some (JBool True)"
  "isLikeValue (JObj props) \<longleftrightarrow> map_of props LIKE_SYMBOL = Some (JBool True)"
  "isDateValue (JObj props) \<longleftrightarrow> map_of props DATE_SYMBOL = Some (JBool True)"
  "isRawValue_v2 (JObj props) \<longleftrightarrow> map_of props (StrKey ''__raw'') = Some (JBool True)"
  "isLikeValue_v2 (JObj props) \<longleftrightarrow> map_of props (StrKey ''__like'') = Some (JBool True)"
  by (auto simp: isRawValue_def isLikeValue_def isDateValue_def isRawValue_v2_def isLikeValue_v2_def
      split: option.splits)

lemma escapeValue_simple [simp]:
  "escapeValue JNull w = Inr ''null''"
  "escapeValue JUndefined w = Inr ''null''"
  "escapeValue (JBool b) w = Inr (if b then ''true'' else ''false'')"
  "escapeValue (JNum n) w =
     (if isFinite n then Inr (numberToString n)
      else Inl (Error (''Invalid SOQL number value: '' @ numberToString n)))"
  "escapeValue (JDate d) w =
     (if isValidDate d then formatDateTime d else Inl (Error ''Invalid Date object''))"
  "escapeValue (JStr s) w = Inr (quoteIf w (escapeString s))"
  "escapeValue (JArr arr) w = escapeArray arr"
  by (simp_all add: escapeValue.simps)

lemma escapeValue_v2_simple [simp]:
  "escapeValue_v2 JNull w = Inr ''null''"
  "escapeValue_v2 JUndefined w = Inr ''null''"
  "escapeValue_v2 (JBool b) w = Inr (if b then ''true'' else ''false'')"
  "escapeValue_v2 (JNum n) w =
     (if isFinite n then Inr (numberToString n)
      else Inl (Error (''Invalid SOQL number value: '' @ numberToString n)))"
  "escapeValue_v2 (JDate d) w =
     (if isValidDate d then formatDateTime d else Inl (Error ''Invalid Date object''))"
  "escapeValue_v2 (JStr s) w = Inr (quoteIf w (escapeString s))"
  "escapeValue_v2 (JArr arr) w = escapeArray_v2 arr"
  by (simp_all add: escapeValue_v2.simps)

lemma escapeValue_wrappers:
  "escapeValue (raw s) w = Inr s"
  "escapeValue (like s) w = Inr (quoteIf w (escapeLike s))"
  "escapeValue (JObj [(DATE_SYMBOL, JBool True), (StrKey ''value'', JDate d)]) w = Inr (formatDate d)"
  by (simp_all add: escapeValue.simps guards_object raw_def like_def
      RAW_SYMBOL_def LIKE_SYMBOL_def DATE_SYMBOL_def)

lemma escapeValue_v2_wrappers:
  "escapeValue_v2 (raw_v2 s) w = Inr s"
  "escapeValue_v2 (like_v2 s) w = Inr (quoteIf w (escapeLike s))"
  by (simp_all add: escapeValue_v2.simps guards_object raw_v2_def like_v2_def)

lemma escapeValue_unmarked_object:
  "map_of props RAW_SYMBOL \<noteq> Some (JBool True) \<Longrightarrow>
   map_of props LIKE_SYMBOL \<noteq> Some (JBool True) \<Longrightarrow>
   map_of props DATE_SYMBOL \<noteq> Some (JBool True) \<Longrightarrow>
   escapeValue (JObj props) w = Inl (Error ''Unsupported SOQL value type: object'')"
  by (simp add: escapeValue.simps guards_object)

lemma escapeArray_Nil: "escapeArray [] = Inl (Error emptyArrayMessage)"
  by (simp add: escapeArray.simps)

lemma escapeArray_Cons:
  "escapeArray (x # xs) =
     (case mapResults (\<lambda>item. escapeValue item True) (x # xs) of
        Inl e \<Rightarrow> Inl e
      | Inr escaped \<Rightarrow> Inr (''('' @ joinStrings '', '' escaped @ '')''))"
  by (simp add: escapeArray.simps mapResults_def)

lemma escapeArray_v2_Nil: "escapeArray_v2 [] = Inr ''(null)''"
  by (simp add: escapeArray_v2.simps)

lemma escapeArray_v2_Cons:
  "escapeArray_v2 (x # xs) =
     (case mapResults (\<lambda>item. escapeValue_v2 item True) (x # xs) of
        Inl e \<Rightarrow> Inl e
      | Inr escaped \<Rightarrow> Inr (''('' @ joinStrings '', '' escaped @ '')''))"
  by (simp add: escapeArray_v2.simps mapResults_def)

section \<open>The loop of the template tag\<close>

lemma soql_loop_interleave:
  "soql_loop strings vals i acc =
     (case mapResults (\<lambda>v. escapeValue v True) (take (length strings - i) (drop i vals)) of
        Inl e \<Rightarrow> Inl e
      | Inr es \<Rightarrow> Inr (acc @ interleave (drop i strings) es))"
proof (induction "length strings - i" arbitrary: i acc)
  case 0
  then show ?case
    by (subst soql_loop.simps) (simp add: mapResults_def)
next
  case (Suc n)
  then have i: "i < length strings" and n: "n = length strings - Suc i"
    by simp_all
  have IH: "soql_loop strings vals (Suc i) acc' =
     (case mapResults (\<lambda>v. escapeValue v True) (take (length strings - Suc i) (drop (Suc i) vals)) of
        Inl e \<Rightarrow> Inl e
      | Inr es \<Rightarrow> Inr (acc' @ interleave (drop (Suc i) strings) es))" for acc'
    using Suc.hyps(1) [OF n] .
  have ds: "drop i strings = strings ! i # drop (Suc i) strings"
    using i by (simp add: Cons_nth_drop_Suc)
  have len: "length strings - i = Suc (length strings - Suc i)"
    using i by simp
  show ?case
  proof (cases "i < length vals")
    case True
    then have dv: "drop i vals = vals ! i # drop (Suc i) vals"
      by (simp add: Cons_nth_drop_Suc)
    show ?thesis
      using i True
      by (subst soql_loop.simps)
         (simp add: IH ds dv len mapResults_def Let_def split: sum.splits)
  next
    case False
    then have dv: "drop i vals = []" "drop (Suc i) vals = []"
      by simp_all
    show ?thesis
      using i False
      by (subst soql_loop.simps)
         (simp add: IH ds dv mapResults_def Let_def)
  qed
qed

lemma soql_template:
  assumes "length strings = Suc (length vals)"
  shows "soql strings vals =
     (case mapResults (\<lambda>v. escapeValue v True) vals of
        Inl e \<Rightarrow> Inl e
      | Inr es \<Rightarrow> Inr (interleave strings es))"
  using assms by (simp add: soql_def soql_loop_interleave split: sum.splits)

section \<open>The two variants on values of the declared type\<close>


section \<open>Characters of a printed number\<close>

lemma digitsOf_chars: "set (digitsOf n) \<subseteq> set ''0123456789''"
  using digitsOf_digits [of n] by (auto simp: list_all_iff isDigit_def)

lemma positiveToString_chars: "set (positiveToString m e) \<subseteq> set numeralChars"
proof -
  define s where "s = digitsOf (m div 10 ^ trailingZeros m)"
  define n where "n = int (length s) + e + int (trailingZeros m)"
  define exs where "exs = digitsOf (nat \<bar>n - 1\<bar>)"
  define sgn where "sgn = (if n - 1 < 0 then ''-'' else ''+'')"
  define N where "N = set numeralChars"
  have eq: "positiveToString m e =
     (if int (length s) \<le> n \<and> n \<le> 21 then s @ replicate (nat (n - int (length s))) CHR ''0''
      else if 0 < n \<and> n \<le> 21 then take (nat n) s @ ''.'' @ drop (nat n) s
      else if - 6 < n \<and> n \<le> 0 then ''0.'' @ replicate (nat (- n)) CHR ''0'' @ s
      else if int (length s) = 1 then s @ ''e'' @ sgn @ exs
      else take 1 s @ ''.'' @ drop 1 s @ ''e'' @ sgn @ exs)"
    by (simp only: positiveToString_def Let_def s_def n_def exs_def sgn_def)
  have "set ''0123456789'' \<subseteq> N"
    by (simp add: N_def numeralChars_def)
  then have d: "set s \<subseteq> N" "set exs \<subseteq> N"
    unfolding s_def exs_def by (rule order_trans [OF digitsOf_chars])+
  have t: "set (take j s) \<subseteq> N" "set (drop j s) \<subseteq> N" for j
    using d(1) set_take_subset [of j s] set_drop_subset [of j s] by blast+
  have "CHR ''0'' \<in> N"
    by (simp add: N_def numeralChars_def)
  then have z: "set (replicate j CHR ''0'') \<subseteq> N" for j
    by (simp add: set_replicate_conv_if)
  have c: "set ''.'' \<subseteq> N" "set ''0.'' \<subseteq> N" "set ''e'' \<subseteq> N" "set sgn \<subseteq> N"
    by (simp_all add: N_def numeralChars_def sgn_def)
  have 1: "set (s @ replicate (nat (n - int (length s))) CHR ''0'') \<subseteq> N"
    using d z by (simp only: set_append Un_subset_iff simp_thms)
  have 2: "set (take (nat n) s @ ''.'' @ drop (nat n) s) \<subseteq> N"
    using t c by (simp only: set_append Un_subset_iff simp_thms)
  have 3: "set (''0.'' @ replicate (nat (- n)) CHR ''0'' @ s) \<subseteq> N"
    using d z c by (simp only: set_append Un_subset_iff simp_thms)
  have 4: "set (s @ ''e'' @ sgn @ exs) \<subseteq> N"
    using d c by (simp only: set_append Un_subset_iff simp_thms)
  have 5: "set (take 1 s @ ''.'' @ drop 1 s @ ''e'' @ sgn @ exs) \<subseteq> N"
    using d t c by (simp only: set_append Un_subset_iff simp_thms)
  show ?thesis
    unfolding eq N_def [symmetric] using 1 2 3 4 5 by (simp only: simp_thms split: if_split)
qed

lemma numberToString_chars: "set (numberToString (Finite neg m e)) \<subseteq> set numeralChars"
proof -
  have "CHR ''0'' \<in> set numeralChars" "CHR ''-'' \<in> set numeralChars"
    by (simp_all add: numeralChars_def)
  then show ?thesis
    using positiveToString_chars [of m e] by auto
qed

section \<open>The template tag and the branches of the value escaper\<close>

text \<open>
  Claim C2. For \<open>n + 1\<close> literal segments and \<open>n\<close> values, \<open>soql\<close> escapes the values
  from left to right with \<open>wrapStrings = true\<close> and returns the segments, unchanged, with
  the escaped values between them; when the escaper throws on a value, the call ends with
  what was thrown at the first such value. Segments
  \<open>["SELECT Id FROM Account WHERE Name = ", ""]\<close> with the string \<open>O'Brien\<close> give
  \<open>SELECT Id FROM Account WHERE Name = 'O\\'Brien'\<close>.
\<close>

theorem soql_interleaves_segments_and_escaped_values:
  "(length strings = Suc (length vals) \<longrightarrow>
      soql strings vals =
        (case mapResults (\<lambda>v. escapeValue v True) vals of
           Inl e \<Rightarrow> Inl e
         | Inr escaped \<Rightarrow> Inr (interleave strings escaped)))
   \<and> soql [''SELECT Id FROM Account WHERE Name = '', ''''] [JStr ''O'Brien'']
       = Inr (''SELECT Id FROM Account WHERE Name = '' @ [squote] @ ''O'' @ [bslash, squote]
              @ ''Brien'' @ [squote])"
proof -
  have "soql [''SELECT Id FROM Account WHERE Name = '', ''''] [JStr ''O'Brien'']
       = Inr (''SELECT Id FROM Account WHERE Name = '' @ [squote] @ ''O'' @ [bslash, squote]
              @ ''Brien'' @ [squote])"
    by (simp add: soql_template mapResults_def quoteIf_def escapeString_def)
  then show ?thesis
    using soql_template [of strings vals] by blast
qed

theorem soql_interleaves_segments_and_escaped_values_witness:
  "length [''SELECT '', '' FROM Account WHERE Id IN '', '' AND Name = '', '''']
     = Suc (length [raw ''Name'', JArr [JStr ''a'', JBool True], JStr ''O'Brien''])
   \<and> soql [''SELECT '', '' FROM Account WHERE Id IN '', '' AND Name = '', '''']
         [raw ''Name'', JArr [JStr ''a'', JBool True], JStr ''O'Brien'']
       = Inr (''SELECT Name FROM Account WHERE Id IN ('a', true) AND Name = 'O'' @ [bslash, squote]
              @ ''Brien'' @ [squote])"
  using soql_interleaves_segments_and_escaped_values
    [of "[''SELECT '', '' FROM Account WHERE Id IN '', '' AND Name = '', '''']"
        "[raw ''Name'', JArr [JStr ''a'', JBool True], JStr ''O'Brien'']"]
  by (simp add: mapResults_def escapeValue_wrappers escapeArray_Cons quoteIf_def escapeString_def)

text \<open>
  The empty array in the field-marker variant: \<open>escapeArray\<close> returns the placeholder
  \<open>(null)\<close> and does not fail.
\<close>

theorem escapeArray_v2_empty_is_placeholder:
  "escapeArray_v2 [] = Inr ''(null)'' \<and> \<not> isl (escapeArray_v2 [])"
  by (simp add: escapeArray_v2_Nil)

text \<open>
  Claim C4, amended. In both variants, \<open>escapeArray\<close> on a non-empty array escapes each
  element with \<open>wrapStrings = true\<close>, whatever flag \<open>escapeValue\<close> was called with, joins the
  results with a comma and a space and puts them in parentheses (the call ends with the
  first error an element raises); \<open>escapeArray ["a", "b", "c"]\<close> is \<open>('a', 'b', 'c')\<close>. On
  the empty array the symbol-marker variant throws an \<open>Error\<close> whose message says that
  empty arrays are not allowed in IN clauses, and the field-marker variant returns
  \<open>(null)\<close>.
\<close>

theorem escapeArray_by_variant:
  "(arr \<noteq> [] \<longrightarrow>
      escapeArray arr =
        (case mapResults (\<lambda>item. escapeValue item True) arr of
           Inl e \<Rightarrow> Inl e
         | Inr escaped \<Rightarrow> Inr (''('' @ joinStrings '', '' escaped @ '')''))
      \<and> escapeArray_v2 arr =
        (case mapResults (\<lambda>item. escapeValue_v2 item True) arr of
           Inl e \<Rightarrow> Inl e
         | Inr escaped \<Rightarrow> Inr (''('' @ joinStrings '', '' escaped @ '')'')))
   \<and> escapeValue (JArr arr) w = escapeArray arr
   \<and> escapeValue_v2 (JArr arr) w = escapeArray_v2 arr
   \<and> escapeArray [JStr ''a'', JStr ''b'', JStr ''c''] = Inr ''('a', 'b', 'c')''
   \<and> escapeArray_v2 [JStr ''a'', JStr ''b'', JStr ''c''] = Inr ''('a', 'b', 'c')''
   \<and> escapeValue (JArr [JStr ''a'']) False = Inr ''('a')''
   \<and> escapeArray [] = Inl (Error emptyArrayMessage)
   \<and> escapeArray_v2 [] = Inr ''(null)''"
proof -
  have "arr \<noteq> [] \<longrightarrow>
      escapeArray arr =
        (case mapResults (\<lambda>item. escapeValue item True) arr of
           Inl e \<Rightarrow> Inl e
         | Inr escaped \<Rightarrow> Inr (''('' @ joinStrings '', '' escaped @ '')''))
      \<and> escapeArray_v2 arr =
        (case mapResults (\<lambda>item. escapeValue_v2 item True) arr of
           Inl e \<Rightarrow> Inl e
         | Inr escaped \<Rightarrow> Inr (''('' @ joinStrings '', '' escaped @ '')''))"
    by (cases arr) (simp_all only: escapeArray_Cons escapeArray_v2_Cons, simp_all)
  moreover have "escapeArray [JStr ''a'', JStr ''b'', JStr ''c''] = Inr ''('a', 'b', 'c')''"
    by (simp add: escapeArray_Cons mapResults_def quoteIf_def escapeString_def)
  moreover have "escapeArray_v2 [JStr ''a'', JStr ''b'', JStr ''c''] = Inr ''('a', 'b', 'c')''"
    by (simp add: escapeArray_v2_Cons mapResults_def quoteIf_def escapeString_def)
  moreover have "escapeValue (JArr [JStr ''a'']) False = Inr ''('a')''"
    by (simp add: escapeArray_Cons mapResults_def quoteIf_def escapeString_def)
  ultimately show ?thesis
    by (simp add: escapeArray_Nil escapeArray_v2_Nil)
qed

theorem escapeArray_by_variant_witness:
  "[JStr ''O'Brien'', JBool True, JNum (Finite False 42 0)] \<noteq> []
   \<and> escapeArray [JStr ''O'Brien'', JBool True, JNum (Finite False 42 0)]
       = Inr (''('O'' @ [bslash, squote] @ ''Brien', true, 42)'')
   \<and> escapeArray_v2 [JStr ''O'Brien'', JBool True, JNum (Finite False 42 0)]
       = Inr (''('O'' @ [bslash, squote] @ ''Brien', true, 42)'')"
  using escapeArray_by_variant [of "[JStr ''O'Brien'', JBool True, JNum (Finite False 42 0)]" True]
  by (simp add: mapResults_def quoteIf_def escapeString_def positiveToString_def
      trailingZeros.simps digitsOf.simps)

text \<open>
  Claim C5. On a number that is infinite or not-a-number \<open>escapeValue\<close> throws an \<open>Error\<close>
  whose message ends with the printed value (\<open>NaN\<close>, \<open>Infinity\<close> or \<open>-Infinity\<close>). On a
  finite number it returns \<open>String\<close> of the number, whatever the flag: no quote, and no
  character other than digits, sign, decimal point and exponent mark. \<open>42\<close>, \<open>-123\<close> and
  \<open>3.14159\<close> are printed as written.
\<close>

theorem escapeValue_number:
  "(\<not> isFinite n \<longrightarrow>
      escapeValue (JNum n) w = Inl (Error (''Invalid SOQL number value: '' @ numberToString n))
      \<and> numberToString n \<in> {''NaN'', ''Infinity'', ''-Infinity''})
   \<and> (isFinite n \<longrightarrow>
      escapeValue (JNum n) w = Inr (numberToString n)
      \<and> set (numberToString n) \<subseteq> set numeralChars)
   \<and> escapeValue (JNum (Finite False 42 0)) w = Inr ''42''
   \<and> escapeValue (JNum (Finite True 123 0)) w = Inr ''-123''
   \<and> escapeValue (JNum (Finite False 314159 (- 5))) w = Inr ''3.14159''
   \<and> escapeValue (JNum PosInfinity) w = Inl (Error ''Invalid SOQL number value: Infinity'')
   \<and> escapeValue (JNum NegInfinity) w = Inl (Error ''Invalid SOQL number value: -Infinity'')
   \<and> escapeValue (JNum NaN) w = Inl (Error ''Invalid SOQL number value: NaN'')"
proof -
  have "\<not> isFinite n \<longrightarrow>
      escapeValue (JNum n) w = Inl (Error (''Invalid SOQL number value: '' @ numberToString n))
      \<and> numberToString n \<in> {''NaN'', ''Infinity'', ''-Infinity''}"
    by (cases n) simp_all
  moreover have "isFinite n \<longrightarrow>
      escapeValue (JNum n) w = Inr (numberToString n)
      \<and> set (numberToString n) \<subseteq> set numeralChars"
    using numberToString_chars by (cases n) simp_all
  moreover have "escapeValue (JNum (Finite False 42 0)) w = Inr ''42''"
    by (simp add: positiveToString_def trailingZeros.simps digitsOf.simps)
  moreover have "escapeValue (JNum (Finite True 123 0)) w = Inr ''-123''"
    by (simp add: positiveToString_def trailingZeros.simps digitsOf.simps)
  moreover have "escapeValue (JNum (Finite False 314159 (- 5))) w = Inr ''3.14159''"
    by (simp add: positiveToString_def trailingZeros.simps digitsOf.simps)
  ultimately show ?thesis
    by simp
qed

theorem escapeValue_number_witness:
  "\<not> isFinite NegInfinity \<and> isFinite (Finite False 10005 (- 1))
   \<and> escapeValue (JNum NegInfinity) True = Inl (Error ''Invalid SOQL number value: -Infinity'')
   \<and> escapeValue (JNum (Finite False 10005 (- 1))) True = Inr ''1000.5''
   \<and> set ''1000.5'' \<subseteq> set numeralChars"
  using escapeValue_number [of NegInfinity True] escapeValue_number [of "Finite False 10005 (- 1)" True]
  by (simp add: positiveToString_def trailingZeros.simps digitsOf.simps)

text \<open>
  Claim C6. For every string \<open>s\<close> and either flag, \<open>escapeValue\<close> returns the payload of
  \<open>raw s\<close> unchanged, in both variants, and a template with \<open>raw s\<close> in its slot is the
  text before, \<open>s\<close>, and the text after.
\<close>

theorem raw_is_inserted_verbatim:
  "escapeValue (raw s) w = Inr s
   \<and> escapeValue_v2 (raw_v2 s) w = Inr s
   \<and> soql [before, after] [raw s] = Inr (before @ s @ after)
   \<and> soql [''SELECT '', '' FROM Account''] [raw ''Name''] = Inr ''SELECT Name FROM Account''"
  by (simp add: escapeValue_wrappers escapeValue_v2_wrappers soql_template mapResults_def)

text \<open>
  Claim C10. \<open>literal\<close> checks nothing at run time: for every string \<open>s\<close>, a keyword or
  not, \<open>literal s\<close> is \<open>raw s\<close>, and \<open>escapeValue\<close> and the template tag emit \<open>s\<close> as it is,
  unquoted.
\<close>

theorem literal_is_unchecked_raw:
  "literal s = raw s
   \<and> escapeValue (literal s) w = Inr s
   \<and> soql [before, after] [literal s] = Inr (before @ s @ after)
   \<and> escapeValue (literal ''YESTERDAY'') True = Inr ''YESTERDAY''
   \<and> escapeValue (literal ''1 OR Id != null'') True = Inr ''1 OR Id != null''"
  by (simp add: literal_def escapeValue_wrappers soql_template mapResults_def)

section \<open>The date-time format\<close>

lemma formatDateTime_fields:
  "formatDateTime (Instant t) =
     Inr (isoYear (YearFromTime t) @ ''-'' @ padField 2 (MonthFromTime t + 1) @ ''-''
          @ padField 2 (DateFromTime t) @ ''T'' @ padField 2 (HourFromTime t) @ '':''
          @ padField 2 (MinFromTime t) @ '':'' @ padField 2 (SecFromTime t) @ ''Z'')"
proof -
  have "replaceMillisSuffix
      ((isoYear (YearFromTime t) @ ''-'' @ padField 2 (MonthFromTime t + 1) @ ''-''
          @ padField 2 (DateFromTime t) @ ''T'' @ padField 2 (HourFromTime t) @ '':''
          @ padField 2 (MinFromTime t) @ '':'' @ padField 2 (SecFromTime t))
       @ ''.'' @ padField 3 (msFromTime t) @ ''Z'')
    = (isoYear (YearFromTime t) @ ''-'' @ padField 2 (MonthFromTime t + 1) @ ''-''
          @ padField 2 (DateFromTime t) @ ''T'' @ padField 2 (HourFromTime t) @ '':''
          @ padField 2 (MinFromTime t) @ '':'' @ padField 2 (SecFromTime t)) @ ''Z''"
    using time_field_bounds(7,8) [of t] by (rule replaceMillisSuffix_millis)
  then show ?thesis
    by (simp add: formatDateTime_def)
qed

lemma dateTimeShape_fields:
  assumes "0 \<le> YearFromTime t" "YearFromTime t \<le> 9999"
  shows "dateTimeShape
     (padField 4 (YearFromTime t) @ ''-'' @ padField 2 (MonthFromTime t + 1) @ ''-''
          @ padField 2 (DateFromTime t) @ ''T'' @ padField 2 (HourFromTime t) @ '':''
          @ padField 2 (MinFromTime t) @ '':'' @ padField 2 (SecFromTime t) @ ''Z'')"
proof -
  obtain y1 y2 y3 y4 where y: "padField 4 (YearFromTime t) = [y1, y2, y3, y4]"
      "isDigit y1" "isDigit y2" "isDigit y3" "isDigit y4"
    using assms by (rule four_digits)
  obtain m1 m2 where m: "padField 2 (MonthFromTime t + 1) = [m1, m2]" "isDigit m1" "isDigit m2"
    using MonthFromTime_bounds [of t] by (auto intro: two_digits [of "MonthFromTime t + 1"])
  obtain d1 d2 where d: "padField 2 (DateFromTime t) = [d1, d2]" "isDigit d1" "isDigit d2"
    using DateFromTime_bounds [of t] by (auto intro: two_digits [of "DateFromTime t"])
  obtain h1 h2 where h: "padField 2 (HourFromTime t) = [h1, h2]" "isDigit h1" "isDigit h2"
    using time_field_bounds(1,2) [of t] by (auto intro: two_digits [of "HourFromTime t"])
  obtain n1 n2 where n: "padField 2 (MinFromTime t) = [n1, n2]" "isDigit n1" "isDigit n2"
    using time_field_bounds(3,4) [of t] by (auto intro: two_digits [of "MinFromTime t"])
  obtain s1 s2 where s: "padField 2 (SecFromTime t) = [s1, s2]" "isDigit s1" "isDigit s2"
    using time_field_bounds(5,6) [of t] by (auto intro: two_digits [of "SecFromTime t"])
  show ?thesis
    by (simp add: y m d h n s)
qed

lemma fields_2024:
  "YearFromTime 1710513045123 = 2024" "MonthFromTime 1710513045123 = 2"
  "DateFromTime 1710513045123 = 15" "HourFromTime 1710513045123 = 14"
  "MinFromTime 1710513045123 = 30" "SecFromTime 1710513045123 = 45"
  "YearFromTime 1710513045999 = 2024" "MonthFromTime 1710513045999 = 2"
  "DateFromTime 1710513045999 = 15" "HourFromTime 1710513045999 = 14"
  "MinFromTime 1710513045999 = 30" "SecFromTime 1710513045999 = 45"
proof -
  have d: "Day 1710513045123 = 19797" "Day 1710513045999 = 19797"
    by (simp_all add: Day_def)
  have "YearFromDay 19797 = 2024"
    by (simp add: YearFromDay_def yearSearch.simps DayFromYear_def)
  then show y: "YearFromTime 1710513045123 = 2024" "YearFromTime 1710513045999 = 2024"
    by (simp_all add: YearFromTime_def d)
  have w: "DayWithinYear 1710513045123 = 74" "DayWithinYear 1710513045999 = 74"
    by (simp_all add: DayWithinYear_def y d DayFromYear_def)
  have l: "InLeapYear 1710513045123" "InLeapYear 1710513045999"
    by (simp_all add: InLeapYear_def y DaysInYear_def)
  show m: "MonthFromTime 1710513045123 = 2" "MonthFromTime 1710513045999 = 2"
    by (simp_all add: MonthFromTime_def w l)
  show "DateFromTime 1710513045123 = 15" "DateFromTime 1710513045999 = 15"
    by (simp_all add: DateFromTime_def w l m)
  show "HourFromTime 1710513045123 = 14" "MinFromTime 1710513045123 = 30"
    "SecFromTime 1710513045123 = 45" "HourFromTime 1710513045999 = 14"
    "MinFromTime 1710513045999 = 30" "SecFromTime 1710513045999 = 45"
    by (simp_all add: HourFromTime_def MinFromTime_def SecFromTime_def)
qed

lemma fields_10000:
  "YearFromTime 253402300800000 = 10000" "MonthFromTime 253402300800000 = 0"
  "DateFromTime 253402300800000 = 1" "HourFromTime 253402300800000 = 0"
  "MinFromTime 253402300800000 = 0" "SecFromTime 253402300800000 = 0"
proof -
  have d: "Day 253402300800000 = 2932897"
    by (simp add: Day_def)
  have "YearFromDay 2932897 = 10000"
    by (simp add: YearFromDay_def yearSearch.simps DayFromYear_def)
  then show y: "YearFromTime 253402300800000 = 10000"
    by (simp add: YearFromTime_def d)
  have w: "DayWithinYear 253402300800000 = 0"
    by (simp add: DayWithinYear_def y d DayFromYear_def)
  show m: "MonthFromTime 253402300800000 = 0"
    by (simp add: MonthFromTime_def w)
  show "DateFromTime 253402300800000 = 1"
    by (simp add: DateFromTime_def w m)
  show "HourFromTime 253402300800000 = 0" "MinFromTime 253402300800000 = 0"
    "SecFromTime 253402300800000 = 0"
    by (simp_all add: HourFromTime_def MinFromTime_def SecFromTime_def)
qed

lemma padField_values:
  "padField 4 2024 = ''2024''" "padField 6 10000 = ''010000''" "padField 2 0 = ''00''"
  "padField 2 1 = ''01''" "padField 2 3 = ''03''" "padField 2 14 = ''14''"
  "padField 2 15 = ''15''" "padField 2 30 = ''30''" "padField 2 45 = ''45''"
  by (simp_all add: padField_def padStart_def digitsOf.simps)

text \<open>
  Where the UTC year has four digits the layout \<open>YYYY-MM-DDThh:mm:ssZ\<close> holds: the UTC
  year, month, day, hour, minute and second, zero-padded to four and to two digits, with
  the marks \<open>-\<close>, \<open>T\<close>, \<open>:\<close> and \<open>Z\<close>. The year is the one the instant's day falls in, and
  the second is the floor of the time in seconds, so the milliseconds are cut off, not
  rounded: both \<open>2024-03-15T14:30:45.123Z\<close> and \<open>2024-03-15T14:30:45.999Z\<close> give
  \<open>2024-03-15T14:30:45Z\<close>. For any instant the year is written as \<open>toISOString\<close> writes it.
\<close>

lemma formatDateTime_four_digit_years:
  "(0 \<le> YearFromTime t \<and> YearFromTime t \<le> 9999 \<longrightarrow>
      formatDateTime (Instant t) =
        Inr (padField 4 (YearFromTime t) @ ''-'' @ padField 2 (MonthFromTime t + 1) @ ''-''
             @ padField 2 (DateFromTime t) @ ''T'' @ padField 2 (HourFromTime t) @ '':''
             @ padField 2 (MinFromTime t) @ '':'' @ padField 2 (SecFromTime t) @ ''Z'')
      \<and> dateTimeShape
           (padField 4 (YearFromTime t) @ ''-'' @ padField 2 (MonthFromTime t + 1) @ ''-''
            @ padField 2 (DateFromTime t) @ ''T'' @ padField 2 (HourFromTime t) @ '':''
            @ padField 2 (MinFromTime t) @ '':'' @ padField 2 (SecFromTime t) @ ''Z''))
   \<and> formatDateTime (Instant t) =
        Inr (isoYear (YearFromTime t) @ ''-'' @ padField 2 (MonthFromTime t + 1) @ ''-''
             @ padField 2 (DateFromTime t) @ ''T'' @ padField 2 (HourFromTime t) @ '':''
             @ padField 2 (MinFromTime t) @ '':'' @ padField 2 (SecFromTime t) @ ''Z'')
   \<and> DayFromYear (YearFromTime t) \<le> Day t \<and> Day t < DayFromYear (YearFromTime t + 1)
   \<and> SecFromTime t = (t div 1000) mod 60
   \<and> formatDateTime (Instant 1710513045123) = Inr ''2024-03-15T14:30:45Z''
   \<and> formatDateTime (Instant 1710513045999) = Inr ''2024-03-15T14:30:45Z''"
proof -
  have "formatDateTime (Instant 1710513045123) = Inr ''2024-03-15T14:30:45Z''"
    "formatDateTime (Instant 1710513045999) = Inr ''2024-03-15T14:30:45Z''"
    by (simp_all add: formatDateTime_fields fields_2024 isoYear_def padField_values)
  moreover have "0 \<le> YearFromTime t \<and> YearFromTime t \<le> 9999 \<longrightarrow>
      formatDateTime (Instant t) =
        Inr (padField 4 (YearFromTime t) @ ''-'' @ padField 2 (MonthFromTime t + 1) @ ''-''
             @ padField 2 (DateFromTime t) @ ''T'' @ padField 2 (HourFromTime t) @ '':''
             @ padField 2 (MinFromTime t) @ '':'' @ padField 2 (SecFromTime t) @ ''Z'')"
    by (simp add: formatDateTime_fields isoYear_def)
  moreover have "DayFromYear (YearFromTime t) \<le> Day t \<and> Day t < DayFromYear (YearFromTime t + 1)"
    using YearFromDay_bounds [of "Day t"] by (simp add: YearFromTime_def)
  ultimately show ?thesis
    using formatDateTime_fields [of t] dateTimeShape_fields [of t]
    by (simp only: SecFromTime_def simp_thms) blast
qed

lemma formatDateTime_2024_example:
  "0 \<le> YearFromTime 1710513045123 \<and> YearFromTime 1710513045123 \<le> 9999
   \<and> formatDateTime (Instant 1710513045123) = Inr ''2024-03-15T14:30:45Z''
   \<and> dateTimeShape ''2024-03-15T14:30:45Z''"
  using formatDateTime_four_digit_years [of 1710513045123]
  by (simp add: fields_2024 padField_values)

lemma intToString_values:
  "intToString 10000 = ''10000''" "intToString 1 = ''1''"
proof -
  have "replicate 4 CHR ''0'' = ''0000''"
    by (simp add: eval_nat_numeral)
  then show "intToString 10000 = ''10000''" "intToString 1 = ''1''"
    by (simp_all add: intToString_def positiveToString_def trailingZeros.simps digitsOf.simps)
qed

text \<open>
  Claim C7. Every valid instant is to be rendered as \<open>YYYY-MM-DDThh:mm:ssZ\<close>, which is also
  what the comment of \<open>formatDateTime\<close> states. The function misses it at the first instant
  of the year 10000, a valid \<open>Date\<close> (its time value is within \<open>8.64 \<times> 10^15\<close>): the
  result, also through \<open>escapeValue\<close>, is \<open>+010000-01-01T00:00:00Z\<close>, with a sign and six
  digits for the year, which is not of that layout. At the same instant \<open>formatDate\<close>
  prints the year as \<open>10000\<close>.
\<close>

theorem formatDateTime_year_10000:
  "isValidDate (Instant 253402300800000)
   \<and> \<bar>253402300800000\<bar> \<le> (8640000000000000 :: int)
   \<and> formatDateTime (Instant 253402300800000) = Inr ''+010000-01-01T00:00:00Z''
   \<and> \<not> dateTimeShape ''+010000-01-01T00:00:00Z''
   \<and> escapeValue (JDate (Instant 253402300800000)) True = Inr ''+010000-01-01T00:00:00Z''
   \<and> formatDate (Instant 253402300800000) = ''10000-01-01''"
  by (simp add: formatDateTime_fields fields_10000 isoYear_def padField_values
      intToString_values padStart_def)

section \<open>Wrapper guards and the agreement of the variants\<close>

lemma stringKeyed_no_symbol: "stringKeyed props \<Longrightarrow> map_of props (SymKey n) = None"
  unfolding stringKeyed_def by (induction props) auto

lemma guards_not_object:
  assumes "\<forall>props. v \<noteq> JObj props"
  shows "\<not> isRawValue v" "\<not> isLikeValue v" "\<not> isDateValue v"
    "\<not> isRawValue_v2 v" "\<not> isLikeValue_v2 v"
  using assms by (cases v; simp)+

lemma escapeValue_v2_unmarked_object:
  "map_of props (StrKey ''__raw'') \<noteq> Some (JBool True) \<Longrightarrow>
   map_of props (StrKey ''__like'') \<noteq> Some (JBool True) \<Longrightarrow>
   escapeValue_v2 (JObj props) w = Inl (Error ''Unsupported SOQL value type: object'')"
  by (simp add: escapeValue_v2.simps guards_object)

lemma escapeValue_v2_marked_object:
  "map_of props (StrKey ''__raw'') = Some (JBool True) \<Longrightarrow>
     escapeValue_v2 (JObj props) w = returnPayload (getProperty (JObj props) (StrKey ''value''))"
  "map_of props (StrKey ''__raw'') \<noteq> Some (JBool True) \<Longrightarrow>
   map_of props (StrKey ''__like'') = Some (JBool True) \<Longrightarrow>
     escapeValue_v2 (JObj props) w =
       (case stringPayload (getProperty (JObj props) (StrKey ''value'')) of
          Inl e \<Rightarrow> Inl e
        | Inr s \<Rightarrow> Inr (quoteIf w (escapeLike s)))"
  by (simp_all add: escapeValue_v2.simps guards_object)

text \<open>
  In the field-marker variant the marker is a property with the ordinary name \<open>__raw\<close>.
  An object with string keys only that has this property set to \<open>true\<close>, such as one read
  from JSON, is taken for a raw wrapper and its \<open>value\<close> is emitted as it is, unquoted. The
  symbol-marker variant rejects the same object.
\<close>

theorem field_marker_accepts_string_keyed_object:
  "stringKeyed [(StrKey ''id'', JNum (Finite False 7 0)), (StrKey ''value'', JStr ''Id != null''),
       (StrKey ''__raw'', JBool True)]
   \<and> isRawValue_v2 (JObj [(StrKey ''id'', JNum (Finite False 7 0)),
       (StrKey ''value'', JStr ''Id != null''), (StrKey ''__raw'', JBool True)])
   \<and> escapeValue_v2 (JObj [(StrKey ''id'', JNum (Finite False 7 0)),
       (StrKey ''value'', JStr ''Id != null''), (StrKey ''__raw'', JBool True)]) True
       = Inr ''Id != null''
   \<and> \<not> isRawValue (JObj [(StrKey ''id'', JNum (Finite False 7 0)),
       (StrKey ''value'', JStr ''Id != null''), (StrKey ''__raw'', JBool True)])
   \<and> escapeValue (JObj [(StrKey ''id'', JNum (Finite False 7 0)),
       (StrKey ''value'', JStr ''Id != null''), (StrKey ''__raw'', JBool True)]) True
       = Inl (Error ''Unsupported SOQL value type: object'')"
  by (simp add: stringKeyed_def guards_object escapeValue_v2_marked_object
      escapeValue_unmarked_object RAW_SYMBOL_def LIKE_SYMBOL_def DATE_SYMBOL_def)

text \<open>
  Claim C8, amended. An object is taken for a wrapper only when it has the marker property
  with the value \<open>true\<close>: without it the guard of either variant is false, and so is every
  guard on a value that is not an object. A value that no guard accepts is not escaped as
  a raw, LIKE or date-only value; for an object this is the \<open>Unsupported SOQL value type\<close>
  error. An object whose only property is \<open>value\<close> is no wrapper in either variant. In the
  symbol-marker variant no object with string keys only is a wrapper, so the marker cannot
  collide with such an object. In the field-marker variant the marker is the string-keyed
  property \<open>__raw\<close> or \<open>__like\<close>: every object with that property set to \<open>true\<close>, whatever
  else it holds, is taken for the wrapper and escaped as one.
\<close>

theorem guards_by_variant:
  "(map_of props RAW_SYMBOL \<noteq> Some (JBool True) \<longrightarrow> \<not> isRawValue (JObj props))
   \<and> (map_of props LIKE_SYMBOL \<noteq> Some (JBool True) \<longrightarrow> \<not> isLikeValue (JObj props))
   \<and> (map_of props DATE_SYMBOL \<noteq> Some (JBool True) \<longrightarrow> \<not> isDateValue (JObj props))
   \<and> (map_of props (StrKey ''__raw'') \<noteq> Some (JBool True) \<longrightarrow> \<not> isRawValue_v2 (JObj props))
   \<and> (map_of props (StrKey ''__like'') \<noteq> Some (JBool True) \<longrightarrow> \<not> isLikeValue_v2 (JObj props))
   \<and> ((\<forall>ps. v \<noteq> JObj ps) \<longrightarrow>
        \<not> isRawValue v \<and> \<not> isLikeValue v \<and> \<not> isDateValue v
        \<and> \<not> isRawValue_v2 v \<and> \<not> isLikeValue_v2 v)
   \<and> (map_of props RAW_SYMBOL \<noteq> Some (JBool True)
        \<and> map_of props LIKE_SYMBOL \<noteq> Some (JBool True)
        \<and> map_of props DATE_SYMBOL \<noteq> Some (JBool True) \<longrightarrow>
        escapeValue (JObj props) w = Inl (Error ''Unsupported SOQL value type: object''))
   \<and> (map_of props (StrKey ''__raw'') \<noteq> Some (JBool True)
        \<and> map_of props (StrKey ''__like'') \<noteq> Some (JBool True) \<longrightarrow>
        escapeValue_v2 (JObj props) w = Inl (Error ''Unsupported SOQL value type: object''))
   \<and> (stringKeyed props \<longrightarrow>
        \<not> isRawValue (JObj props) \<and> \<not> isLikeValue (JObj props) \<and> \<not> isDateValue (JObj props)
        \<and> escapeValue (JObj props) w = Inl (Error ''Unsupported SOQL value type: object''))
   \<and> (map_of props (StrKey ''__raw'') = Some (JBool True) \<longrightarrow>
        isRawValue_v2 (JObj props)
        \<and> escapeValue_v2 (JObj props) w
            = returnPayload (getProperty (JObj props) (StrKey ''value'')))
   \<and> (map_of props (StrKey ''__raw'') \<noteq> Some (JBool True)
        \<and> map_of props (StrKey ''__like'') = Some (JBool True) \<longrightarrow>
        isLikeValue_v2 (JObj props)
        \<and> escapeValue_v2 (JObj props) w
            = (case stringPayload (getProperty (JObj props) (StrKey ''value'')) of
                 Inl e \<Rightarrow> Inl e
               | Inr s \<Rightarrow> Inr (quoteIf w (escapeLike s))))
   \<and> \<not> isRawValue (JObj [(StrKey ''value'', x)])
   \<and> \<not> isLikeValue (JObj [(StrKey ''value'', x)])
   \<and> \<not> isDateValue (JObj [(StrKey ''value'', x)])
   \<and> \<not> isRawValue_v2 (JObj [(StrKey ''value'', x)])
   \<and> \<not> isLikeValue_v2 (JObj [(StrKey ''value'', x)])
   \<and> escapeValue (JObj [(StrKey ''value'', x)]) w
       = Inl (Error ''Unsupported SOQL value type: object'')
   \<and> escapeValue_v2 (JObj [(StrKey ''value'', x)]) w
       = Inl (Error ''Unsupported SOQL value type: object'')"
proof -
  have sym: "stringKeyed props \<longrightarrow>
        \<not> isRawValue (JObj props) \<and> \<not> isLikeValue (JObj props) \<and> \<not> isDateValue (JObj props)
        \<and> escapeValue (JObj props) w = Inl (Error ''Unsupported SOQL value type: object'')"
    using stringKeyed_no_symbol [of props]
    by (simp add: guards_object escapeValue_unmarked_object
        RAW_SYMBOL_def LIKE_SYMBOL_def DATE_SYMBOL_def)
  have only_value:
    "\<not> isRawValue (JObj [(StrKey ''value'', x)])"
    "\<not> isLikeValue (JObj [(StrKey ''value'', x)])"
    "\<not> isDateValue (JObj [(StrKey ''value'', x)])"
    "\<not> isRawValue_v2 (JObj [(StrKey ''value'', x)])"
    "\<not> isLikeValue_v2 (JObj [(StrKey ''value'', x)])"
    "escapeValue (JObj [(StrKey ''value'', x)]) w
       = Inl (Error ''Unsupported SOQL value type: object'')"
    "escapeValue_v2 (JObj [(StrKey ''value'', x)]) w
       = Inl (Error ''Unsupported SOQL value type: object'')"
    by (simp_all add: guards_object escapeValue_unmarked_object escapeValue_v2_unmarked_object
        RAW_SYMBOL_def LIKE_SYMBOL_def DATE_SYMBOL_def)
  show ?thesis
    using sym only_value guards_not_object [of v]
      escapeValue_unmarked_object [of props w] escapeValue_v2_unmarked_object [of props w]
      escapeValue_v2_marked_object [of props w]
    by (simp only: guards_object simp_thms) blast
qed

theorem guards_by_variant_witness:
  "map_of [(StrKey ''value'', JStr ''x''), (StrKey ''__raw'', JBool False)] RAW_SYMBOL
      \<noteq> Some (JBool True)
   \<and> map_of [(StrKey ''value'', JStr ''x''), (StrKey ''__raw'', JBool False)] (StrKey ''__raw'')
      \<noteq> Some (JBool True)
   \<and> stringKeyed [(StrKey ''value'', JStr ''x''), (StrKey ''__raw'', JBool False)]
   \<and> \<not> isRawValue (JObj [(StrKey ''value'', JStr ''x''), (StrKey ''__raw'', JBool False)])
   \<and> \<not> isRawValue_v2 (JObj [(StrKey ''value'', JStr ''x''), (StrKey ''__raw'', JBool False)])
   \<and> \<not> isLikeValue (JStr ''x'')
   \<and> escapeValue (JObj [(StrKey ''value'', JStr ''x''), (StrKey ''__raw'', JBool False)]) True
       = Inl (Error ''Unsupported SOQL value type: object'')
   \<and> escapeValue_v2 (JObj [(StrKey ''value'', JStr ''x''), (StrKey ''__raw'', JBool False)]) True
       = Inl (Error ''Unsupported SOQL value type: object'')
   \<and> map_of [(StrKey ''value'', JStr ''x''), (StrKey ''__raw'', JBool True)] (StrKey ''__raw'')
      = Some (JBool True)
   \<and> stringKeyed [(StrKey ''value'', JStr ''x''), (StrKey ''__raw'', JBool True)]
   \<and> isRawValue_v2 (JObj [(StrKey ''value'', JStr ''x''), (StrKey ''__raw'', JBool True)])
   \<and> escapeValue_v2 (JObj [(StrKey ''value'', JStr ''x''), (StrKey ''__raw'', JBool True)]) True
       = Inr ''x''
   \<and> map_of [(StrKey ''value'', JStr ''50%''), (StrKey ''__like'', JBool True)] (StrKey ''__like'')
      = Some (JBool True)
   \<and> isLikeValue_v2 (JObj [(StrKey ''value'', JStr ''50%''), (StrKey ''__like'', JBool True)])
   \<and> escapeValue_v2 (JObj [(StrKey ''value'', JStr ''50%''), (StrKey ''__like'', JBool True)]) False
       = Inr (''50'' @ [bslash] @ ''%'')"
  using guards_by_variant
    [of "[(StrKey ''value'', JStr ''x''), (StrKey ''__raw'', JBool False)]" "JStr ''x''" True]
    guards_by_variant
    [of "[(StrKey ''value'', JStr ''x''), (StrKey ''__raw'', JBool True)]" "JStr ''x''" True]
    guards_by_variant
    [of "[(StrKey ''value'', JStr ''50%''), (StrKey ''__like'', JBool True)]" "JStr ''x''" False]
  by (simp add: stringKeyed_def RAW_SYMBOL_def LIKE_SYMBOL_def DATE_SYMBOL_def quoteIf_def
      escapeLike_def)



end
